theory Spec2Isabelle
  imports Complex_Main "HOL-Library.Word" "HOL-Library.Option_ord" "HOL-Library.Multiset"
begin

unbundle bit_operations_syntax

section \<open>Values shared by the renderer classes\<close>

text \<open>
  A C++ \<^verbatim>\<open>float\<close> is either not-a-number, an infinity, or a finite value, which is
  carried as the real number it denotes.  Only the comparison \<^verbatim>\<open>operator<\<close> is given a
  meaning here; whatever arithmetic the source performs on floats is taken from a record
  of operations (\<open>fpu\<close> below), so that no theorem depends on a rounding mode.
\<close>

datatype float = NaN | NegInf | Fin real | PosInf

fun float_less :: "float \<Rightarrow> float \<Rightarrow> bool" where
  "float_less NaN _ = False"
| "float_less _ NaN = False"
| "float_less NegInf NegInf = False"
| "float_less NegInf _ = True"
| "float_less (Fin a) (Fin b) = (a < b)"
| "float_less (Fin a) PosInf = True"
| "float_less (Fin a) NegInf = False"
| "float_less PosInf _ = False"

record fpu =
  fadd :: "float \<Rightarrow> float \<Rightarrow> float"
  fsub :: "float \<Rightarrow> float \<Rightarrow> float"
  fmul :: "float \<Rightarrow> float \<Rightarrow> float"
  fdiv :: "float \<Rightarrow> float \<Rightarrow> float"
  fneg :: "float \<Rightarrow> float"
  fcos :: "float \<Rightarrow> float"
  fsin :: "float \<Rightarrow> float"
  f_of_u32 :: "32 word \<Rightarrow> float"
  f_of_i32 :: "int \<Rightarrow> float"

type_synonym vec2 = "float \<times> float"
type_synonym vec3 = "float \<times> float \<times> float"
type_synonym vec4 = "float \<times> float \<times> float \<times> float"

text \<open>
  A \<^verbatim>\<open>Texture*\<close> is \<open>None\<close> for \<^verbatim>\<open>nullptr\<close> and \<open>Some a\<close> for the object at address
  \<open>a\<close>; \<^verbatim>\<open>operator<\<close> on two such pointers is the order of \<open>nat option\<close>.  An owning
  \<^verbatim>\<open>std::unique_ptr<Texture>\<close> filled by \<^verbatim>\<open>std::make_unique\<close> is the address itself.
\<close>

type_synonym TexturePtr = "nat option"
type_synonym CameraPtr = "nat option"
type_synonym VkDescriptorSet = nat

text \<open>
  What a call can end in besides returning: a thrown \<^verbatim>\<open>std::runtime_error\<close> with its
  message, or undefined behaviour of one of two kinds, the use of a null pointer and a
  \<^verbatim>\<open>memcpy\<close> of more elements than the mapped buffer was created for.
\<close>

datatype error = runtime_error string | null_dereference | buffer_overrun

section \<open>SpriteBatch (sorting, instance-record implementation)\<close>

record Vertex2D =
  v_position :: vec3
  v_color :: vec4
  v_texCoord :: vec2

record SpriteInstance =
  i_position :: vec2
  i_size :: vec2
  i_origin :: vec2
  i_rotation :: float
  i_padding :: float
  i_color :: vec4
  i_uvRect :: vec4

record BatchStatistics =
  spriteCount :: "32 word"
  drawCallCount :: "32 word"
  instancedBatches :: "32 word"
  textureBindCount :: "32 word"
  cpuTimeMs :: float

record BatchInfo =
  b_texture :: TexturePtr
  startInstance :: "32 word"
  instanceCount :: "32 word"

record SpriteData =
  sd_texture :: TexturePtr
  sd_instance :: SpriteInstance

text \<open>
  Of a \<^verbatim>\<open>FrameData\<close> slot the model keeps the contents of the persistently mapped
  staging buffer and the upload flag.  A mapped buffer is the list of elements written to
  it so far; \<open>memcpy\<close> overwrites a prefix of it, and \<open>mapped_memcpy\<close> is the copy into a
  buffer created for \<open>capacity\<close> elements.
\<close>

record FrameData =
  instanceStagingBuffer :: "SpriteInstance list"
  needsUpload :: bool

definition memcpy :: "'a list \<Rightarrow> 'a list \<Rightarrow> 'a list" where
  "memcpy dst src = src @ drop (length src) dst"

definition mapped_memcpy :: "nat \<Rightarrow> 'a list \<Rightarrow> 'a list \<Rightarrow> 'a list option" where
  "mapped_memcpy capacity dst src =
     (if length src > capacity then None else Some (memcpy dst src))"

definition FRAME_BUFFER_COUNT :: "32 word" where
  "FRAME_BUFFER_COUNT = 2"

text \<open>
  The member \<open>vkDevice\<close> stands for the state of the Vulkan device behind
  \<^verbatim>\<open>m_Context\<close> and \<^verbatim>\<open>m_DescriptorPool\<close>; it is opaque and only changed by the driver
  calls of \<open>vulkan\<close> below.
\<close>

record SpriteBatch =
  m_Vertices :: "Vertex2D list"
  m_Indices :: "32 word list"
  m_VertexBuffer :: "Vertex2D list"
  m_IndexBuffer :: "32 word list"
  m_FrameData :: "FrameData list"
  m_CurrentFrameIndex :: "32 word"
  m_SpriteDataList :: "SpriteData list"
  m_Instances :: "SpriteInstance list"
  m_Batches :: "BatchInfo list"
  m_DescriptorSets :: "TexturePtr \<rightharpoonup> VkDescriptorSet"
  m_CurrentCamera :: CameraPtr
  m_MaxSprites :: "32 word"
  m_IsBatching :: bool
  m_EnableTextureSorting :: bool
  m_UseInstancing :: bool
  m_Statistics :: BatchStatistics
  m_WhiteTexture :: nat
  vkDevice :: nat

type_synonym 'a outcome = "(error + 'a) \<times> SpriteBatch"

definition BatchStatistics_zero :: BatchStatistics where
  "BatchStatistics_zero =
     \<lparr>spriteCount = 0, drawCallCount = 0, instancedBatches = 0, textureBindCount = 0,
      cpuTimeMs = Fin 0\<rparr>"

definition Begin :: "CameraPtr \<Rightarrow> SpriteBatch \<Rightarrow> unit outcome" where
  "Begin camera s =
     (if m_IsBatching s
      then (Inl (runtime_error ''SpriteBatch::Begin called without ending previous batch''), s)
      else (Inr (),
            s\<lparr>m_IsBatching := True,
              m_CurrentCamera := camera,
              m_SpriteDataList := [],
              m_Instances := [],
              m_Batches := [],
              m_Vertices := [],
              m_Indices := [],
              m_Statistics := BatchStatistics_zero\<rparr>))"

definition Draw ::
  "TexturePtr \<Rightarrow> vec2 \<Rightarrow> vec2 \<Rightarrow> vec2 \<Rightarrow> vec2 \<Rightarrow> vec4 \<Rightarrow> float \<Rightarrow> vec2 \<Rightarrow> SpriteBatch \<Rightarrow> unit outcome"
where
  "Draw texture position sz uvMin uvMax color rotation origin s =
     (if \<not> m_IsBatching s
      then (Inl (runtime_error ''SpriteBatch::Draw called without Begin''), s)
      else if length (m_SpriteDataList s) \<ge> unat (m_MaxSprites s)
      then (Inr (), s)
      else
        let texture' = (if texture = None then Some (m_WhiteTexture s) else texture);
            spriteData =
              \<lparr>sd_texture = texture',
               sd_instance =
                 \<lparr>i_position = position,
                  i_size = sz,
                  i_origin = origin,
                  i_rotation = rotation,
                  i_padding = Fin 0,
                  i_color = color,
                  i_uvRect = (fst uvMin, snd uvMin, fst uvMax, snd uvMax)\<rparr>\<rparr>
        in (Inr (), s\<lparr>m_SpriteDataList := m_SpriteDataList s @ [spriteData]\<rparr>))"

text \<open>The overload without a UV rectangle forwards with the full texture.\<close>

definition Draw_noUV ::
  "TexturePtr \<Rightarrow> vec2 \<Rightarrow> vec2 \<Rightarrow> vec4 \<Rightarrow> float \<Rightarrow> vec2 \<Rightarrow> SpriteBatch \<Rightarrow> unit outcome"
where
  "Draw_noUV texture position sz color rotation origin s =
     Draw texture position sz (Fin 0, Fin 0) (Fin 1, Fin 1) color rotation origin s"

text \<open>
  \<^verbatim>\<open>std::stable_sort\<close> of the C++ library sorts by a comparator and keeps equivalent
  elements in their order; for a strict weak ordering that fixes the result.  It is
  computed here by insertion from the back of the sequence, where an element moves only
  past the elements that compare less than it.
\<close>

fun insert_by :: "('a \<Rightarrow> 'a \<Rightarrow> bool) \<Rightarrow> 'a \<Rightarrow> 'a list \<Rightarrow> 'a list" where
  "insert_by lt x [] = [x]"
| "insert_by lt x (y # ys) = (if lt y x then y # insert_by lt x ys else x # y # ys)"

definition stable_sort :: "('a \<Rightarrow> 'a \<Rightarrow> bool) \<Rightarrow> 'a list \<Rightarrow> 'a list" where
  "stable_sort lt xs = foldr (insert_by lt) xs []"

definition SortBatches :: "SpriteBatch \<Rightarrow> SpriteBatch" where
  "SortBatches s =
     (if \<not> m_EnableTextureSorting s \<or> m_SpriteDataList s = [] then s
      else s\<lparr>m_SpriteDataList :=
               stable_sort (\<lambda>a b. sd_texture a < sd_texture b) (m_SpriteDataList s)\<rparr>)"

text \<open>
  The loop of \<^verbatim>\<open>BuildBatches\<close>: \<open>i\<close> is the \<^verbatim>\<open>size_t\<close> index, the tuple holds
  \<^verbatim>\<open>currentTexture\<close>, \<^verbatim>\<open>batchStartIndex\<close>, \<^verbatim>\<open>m_Batches\<close> and \<^verbatim>\<open>m_Instances\<close>.
\<close>

fun BuildBatches_loop ::
  "nat \<Rightarrow> SpriteData list \<Rightarrow> TexturePtr \<times> 32 word \<times> BatchInfo list \<times> SpriteInstance list
     \<Rightarrow> TexturePtr \<times> 32 word \<times> BatchInfo list \<times> SpriteInstance list"
where
  "BuildBatches_loop i [] st = st"
| "BuildBatches_loop i (spriteData # rest) (currentTexture, batchStartIndex, batches, instances) =
     (if sd_texture spriteData \<noteq> currentTexture
      then BuildBatches_loop (Suc i) rest
             (sd_texture spriteData,
              word_of_nat i,
              (if currentTexture \<noteq> None \<and> i > unat batchStartIndex
               then batches @ [\<lparr>b_texture = currentTexture,
                                 startInstance = batchStartIndex,
                                 instanceCount = word_of_nat i - batchStartIndex\<rparr>]
               else batches),
              instances @ [sd_instance spriteData])
      else BuildBatches_loop (Suc i) rest
             (currentTexture, batchStartIndex, batches, instances @ [sd_instance spriteData]))"

definition BuildBatches :: "SpriteBatch \<Rightarrow> SpriteBatch" where
  "BuildBatches s =
     (if m_SpriteDataList s = [] then s
      else
        case BuildBatches_loop 0 (m_SpriteDataList s) (None, 0, m_Batches s, m_Instances s) of
          (currentTexture, batchStartIndex, batches, instances) \<Rightarrow>
            s\<lparr>m_Instances := instances,
              m_Batches :=
                (if currentTexture \<noteq> None
                 then batches @ [\<lparr>b_texture = currentTexture,
                                   startInstance = batchStartIndex,
                                   instanceCount =
                                     word_of_nat (length (m_SpriteDataList s)) - batchStartIndex\<rparr>]
                 else batches)\<rparr>)"

text \<open>
  \<^verbatim>\<open>UploadInstanceData\<close>.  The staging buffers were created for \<^verbatim>\<open>m_MaxSprites\<close>
  instances.  \<^verbatim>\<open>m_FrameData[m_CurrentFrameIndex]\<close> is an unchecked \<^verbatim>\<open>std::array\<close>
  access; the index is only ever assigned a value modulo \<open>FRAME_BUFFER_COUNT\<close>.
\<close>

definition UploadInstanceData :: "SpriteBatch \<Rightarrow> unit outcome" where
  "UploadInstanceData s =
     (if m_Instances s = [] then (Inr (), s)
      else
        let k = unat (m_CurrentFrameIndex s);
            frameData = m_FrameData s ! k
        in case mapped_memcpy (unat (m_MaxSprites s)) (instanceStagingBuffer frameData)
                  (m_Instances s) of
             None \<Rightarrow> (Inl buffer_overrun, s)
           | Some buffer \<Rightarrow>
               (Inr (),
                s\<lparr>m_FrameData :=
                    (m_FrameData s)[k := frameData\<lparr>instanceStagingBuffer := buffer,
                                                    needsUpload := True\<rparr>]\<rparr>))"

text \<open>The four rotated corners of one sprite and the six indices of its two triangles.\<close>

definition rotate_corner :: "fpu \<Rightarrow> float \<Rightarrow> float \<Rightarrow> vec2 \<Rightarrow> vec2 \<Rightarrow> vec2" where
  "rotate_corner F cos_r sin_r pos corner =
     (let x = fsub F (fmul F (fst corner) cos_r) (fmul F (snd corner) sin_r);
          y = fadd F (fmul F (fst corner) sin_r) (fmul F (snd corner) cos_r)
      in (fadd F x (fst pos), fadd F y (snd pos)))"

definition legacy_corners :: "fpu \<Rightarrow> SpriteInstance \<Rightarrow> vec2 list" where
  "legacy_corners F inst =
     (let ox = fst (i_origin inst); oy = snd (i_origin inst);
          sx = fst (i_size inst); sy = snd (i_size inst);
          corners = [(fneg F ox, fneg F oy),
                     (fsub F sx ox, fneg F oy),
                     (fsub F sx ox, fsub F sy oy),
                     (fneg F ox, fsub F sy oy)];
          cos_r = fcos F (i_rotation inst);
          sin_r = fsin F (i_rotation inst)
      in map (rotate_corner F cos_r sin_r (i_position inst)) corners)"

definition legacy_step ::
  "fpu \<Rightarrow> Vertex2D list \<times> 32 word list \<Rightarrow> SpriteData \<Rightarrow> Vertex2D list \<times> 32 word list"
where
  "legacy_step F acc spriteData =
     (let vertices = fst acc; indices = snd acc;
          inst = sd_instance spriteData;
          corners = legacy_corners F inst;
          baseVertex = (word_of_nat (length vertices) :: 32 word);
          uvMin = (fst (i_uvRect inst), fst (snd (i_uvRect inst)));
          uvMax = (fst (snd (snd (i_uvRect inst))), snd (snd (snd (i_uvRect inst))));
          vtx = (\<lambda>k uv. \<lparr>v_position = (fst (corners ! k), snd (corners ! k), Fin 0),
                           v_color = i_color inst,
                           v_texCoord = uv\<rparr>)
      in (vertices @ [vtx 0 (fst uvMin, snd uvMin),
                      vtx 1 (fst uvMax, snd uvMin),
                      vtx 2 (fst uvMax, snd uvMax),
                      vtx 3 (fst uvMin, snd uvMax)],
          indices @ [baseVertex + 0, baseVertex + 1, baseVertex + 2,
                     baseVertex + 2, baseVertex + 3, baseVertex + 0]))"

definition legacy_vertices ::
  "fpu \<Rightarrow> SpriteData list \<Rightarrow> Vertex2D list \<times> 32 word list \<Rightarrow> Vertex2D list \<times> 32 word list"
where
  "legacy_vertices F spriteDataList acc = foldl (legacy_step F) acc spriteDataList"

text \<open>
  \<^verbatim>\<open>End\<close>, in the sections its comments name.  After sorting, batching and the
  instance upload come the generation of the fallback vertices, their copy into the
  vertex and index buffers, which were created for \<^verbatim>\<open>maxSprites * 4\<close> vertices and
  \<^verbatim>\<open>maxSprites * 6\<close> indices, and the statistics.  The elapsed wall-clock time that is
  written to the statistics is an input.
\<close>

definition generate_legacy :: "fpu \<Rightarrow> SpriteBatch \<Rightarrow> SpriteBatch" where
  "generate_legacy F s =
     (let vi = legacy_vertices F (m_SpriteDataList s) (m_Vertices s, m_Indices s)
      in s\<lparr>m_Vertices := fst vi, m_Indices := snd vi\<rparr>)"

definition upload_legacy :: "SpriteBatch \<Rightarrow> unit outcome" where
  "upload_legacy s =
     (case (if m_Vertices s \<noteq> []
            then mapped_memcpy (unat (m_MaxSprites s) * 4) (m_VertexBuffer s) (m_Vertices s)
            else Some (m_VertexBuffer s)) of
        None \<Rightarrow> (Inl buffer_overrun, s)
      | Some vertexBuffer \<Rightarrow>
          (case (if m_Indices s \<noteq> []
                 then mapped_memcpy (unat (m_MaxSprites s) * 6) (m_IndexBuffer s) (m_Indices s)
                 else Some (m_IndexBuffer s)) of
             None \<Rightarrow> (Inl buffer_overrun, s\<lparr>m_VertexBuffer := vertexBuffer\<rparr>)
           | Some indexBuffer \<Rightarrow>
               (Inr (), s\<lparr>m_VertexBuffer := vertexBuffer, m_IndexBuffer := indexBuffer\<rparr>)))"

definition update_statistics :: "float \<Rightarrow> SpriteBatch \<Rightarrow> SpriteBatch" where
  "update_statistics elapsedMs s =
     s\<lparr>m_Statistics :=
         \<lparr>spriteCount = word_of_nat (length (m_SpriteDataList s)),
          drawCallCount = word_of_nat (length (m_Batches s)),
          instancedBatches = 0,
          textureBindCount = word_of_nat (length (m_Batches s)),
          cpuTimeMs = elapsedMs\<rparr>\<rparr>"

definition End :: "fpu \<Rightarrow> float \<Rightarrow> SpriteBatch \<Rightarrow> unit outcome" where
  "End F elapsedMs s =
     (if \<not> m_IsBatching s
      then (Inl (runtime_error ''SpriteBatch::End called without Begin''), s)
      else
        case UploadInstanceData (BuildBatches (SortBatches s)) of
          (Inl e, s') \<Rightarrow> (Inl e, s')
        | (Inr _, s3) \<Rightarrow>
            (case upload_legacy (generate_legacy F s3) of
               (Inl e, s') \<Rightarrow> (Inl e, s')
             | (Inr _, s6) \<Rightarrow>
                 (let s7 = update_statistics elapsedMs s6
                  in (Inr (),
                      s7\<lparr>m_IsBatching := False,
                         m_CurrentFrameIndex :=
                           (m_CurrentFrameIndex s7 + 1) mod FRAME_BUFFER_COUNT\<rparr>))))"

subsection \<open>Render\<close>

text \<open>
  The services \<^verbatim>\<open>Render\<close> takes from its collaborators: the swap-chain extent of the
  context, the matrix \<^verbatim>\<open>GetViewProjectionMatrix()\<close> of the camera at an address, and the
  two driver calls of \<^verbatim>\<open>GetOrCreateDescriptorSet\<close>.  \<open>vkAllocateDescriptorSets\<close> maps
  the device state to the new handle and device state, or to \<open>None\<close> when the driver
  does not answer \<^verbatim>\<open>VK_SUCCESS\<close>; \<open>vkUpdateDescriptorSets\<close> writes the image info of the
  texture at the given address into the descriptor set.
\<close>

type_synonym mat4 = "float list"

record vulkan =
  swapChainExtent :: "32 word \<times> 32 word"
  viewProjectionMatrix :: "nat \<Rightarrow> mat4"
  vkAllocateDescriptorSets :: "nat \<Rightarrow> (VkDescriptorSet \<times> nat) option"
  vkUpdateDescriptorSets :: "VkDescriptorSet \<Rightarrow> nat \<Rightarrow> nat \<Rightarrow> nat"

text \<open>
  The commands recorded into a command buffer.  \<open>CmdDrawIndexed\<close> carries
  \<^verbatim>\<open>indexCount\<close>, \<^verbatim>\<open>instanceCount\<close>, \<^verbatim>\<open>firstIndex\<close>, \<^verbatim>\<open>vertexOffset\<close> and
  \<^verbatim>\<open>firstInstance\<close>.
\<close>

datatype VkCommand =
    CmdBindPipeline
  | CmdSetViewport float float float float float float
  | CmdSetScissor int int "32 word" "32 word"
  | CmdPushConstants mat4
  | CmdBindVertexBuffers
  | CmdBindIndexBuffer
  | CmdBindDescriptorSets VkDescriptorSet
  | CmdDrawIndexed "32 word" "32 word" "32 word" int "32 word"

definition GetOrCreateDescriptorSet ::
  "vulkan \<Rightarrow> TexturePtr \<Rightarrow> SpriteBatch \<Rightarrow> VkDescriptorSet outcome"
where
  "GetOrCreateDescriptorSet V texture s =
     (case m_DescriptorSets s texture of
        Some descriptorSet \<Rightarrow> (Inr descriptorSet, s)
      | None \<Rightarrow>
          (case vkAllocateDescriptorSets V (vkDevice s) of
             None \<Rightarrow> (Inl (runtime_error ''Failed to allocate descriptor set''), s)
           | Some (descriptorSet, dev) \<Rightarrow>
               (case texture of
                  None \<Rightarrow> (Inl null_dereference, s\<lparr>vkDevice := dev\<rparr>)
                | Some a \<Rightarrow>
                    (Inr descriptorSet,
                     s\<lparr>vkDevice := vkUpdateDescriptorSets V descriptorSet a dev,
                       m_DescriptorSets := (m_DescriptorSets s)(texture \<mapsto> descriptorSet)\<rparr>))))"

text \<open>
  The loop over \<^verbatim>\<open>m_Batches\<close> with the running \<^verbatim>\<open>indexOffset\<close>; the result carries
  the command buffer as far as it was recorded.
\<close>

fun Render_loop ::
  "vulkan \<Rightarrow> BatchInfo list \<Rightarrow> 32 word \<Rightarrow> VkCommand list \<Rightarrow> SpriteBatch
     \<Rightarrow> (error + unit) \<times> VkCommand list \<times> SpriteBatch"
where
  "Render_loop V [] indexOffset cb s = (Inr (), cb, s)"
| "Render_loop V (batch # rest) indexOffset cb s =
     (case GetOrCreateDescriptorSet V (b_texture batch) s of
        (Inl e, s') \<Rightarrow> (Inl e, cb, s')
      | (Inr descriptorSet, s') \<Rightarrow>
          (let indexCount = instanceCount batch * 6
           in Render_loop V rest (indexOffset + indexCount)
                (cb @ [CmdBindDescriptorSets descriptorSet,
                       CmdDrawIndexed indexCount 1 indexOffset 0 0])
                s'))"

definition Render ::
  "fpu \<Rightarrow> vulkan \<Rightarrow> VkCommand list \<Rightarrow> SpriteBatch
     \<Rightarrow> (error + unit) \<times> VkCommand list \<times> SpriteBatch"
where
  "Render F V commandBuffer s =
     (if m_Batches s = [] then (Inr (), commandBuffer, s)
      else
        let extent = swapChainExtent V;
            cb1 = commandBuffer @
                  [CmdBindPipeline,
                   CmdSetViewport (Fin 0) (Fin 0) (f_of_u32 F (fst extent)) (f_of_u32 F (snd extent))
                                  (Fin 0) (Fin 1),
                   CmdSetScissor 0 0 (fst extent) (snd extent)]
        in (case m_CurrentCamera s of
              None \<Rightarrow> (Inl null_dereference, cb1, s)
            | Some camera \<Rightarrow>
                Render_loop V (m_Batches s) 0
                  (cb1 @ [CmdPushConstants (viewProjectionMatrix V camera),
                          CmdBindVertexBuffers,
                          CmdBindIndexBuffer])
                  s))"

text \<open>
  One frame as the caller drives it: \<^verbatim>\<open>Begin\<close>, the \<^verbatim>\<open>Draw\<close> calls in order, \<^verbatim>\<open>End\<close>.
  An exception leaves the sequence at the call that threw.
\<close>

record DrawCall =
  dc_texture :: TexturePtr
  dc_position :: vec2
  dc_size :: vec2
  dc_uvMin :: vec2
  dc_uvMax :: vec2
  dc_color :: vec4
  dc_rotation :: float
  dc_origin :: vec2

definition Draw_call :: "DrawCall \<Rightarrow> SpriteBatch \<Rightarrow> unit outcome" where
  "Draw_call d s =
     Draw (dc_texture d) (dc_position d) (dc_size d) (dc_uvMin d) (dc_uvMax d)
          (dc_color d) (dc_rotation d) (dc_origin d) s"

fun DrawAll :: "DrawCall list \<Rightarrow> SpriteBatch \<Rightarrow> unit outcome" where
  "DrawAll [] s = (Inr (), s)"
| "DrawAll (d # ds) s =
     (case Draw_call d s of
        (Inl e, s') \<Rightarrow> (Inl e, s')
      | (Inr _, s') \<Rightarrow> DrawAll ds s')"

definition Frame :: "fpu \<Rightarrow> CameraPtr \<Rightarrow> DrawCall list \<Rightarrow> float \<Rightarrow> SpriteBatch \<Rightarrow> unit outcome" where
  "Frame F camera ds elapsedMs s =
     (case Begin camera s of
        (Inl e, s') \<Rightarrow> (Inl e, s')
      | (Inr _, s1) \<Rightarrow>
          (case DrawAll ds s1 of
             (Inl e, s') \<Rightarrow> (Inl e, s')
           | (Inr _, s2) \<Rightarrow> End F elapsedMs s2))"

section \<open>SpriteBatch (earlier, immediate-vertex implementation)\<close>

text \<open>
  The source tree also carries the earlier \<^verbatim>\<open>SpriteBatch\<close>, which builds vertices inside
  \<^verbatim>\<open>Draw\<close> and groups them by the texture of consecutive calls.  Its members carry the
  prefix \<open>l_\<close> here.  The mapped vertex and index buffers were created for
  \<^verbatim>\<open>maxSprites * 4\<close> vertices and \<^verbatim>\<open>maxSprites * 6\<close> indices.
\<close>

record LegacyBatchInfo =
  lb_texture :: TexturePtr
  lb_startIndex :: "32 word"
  lb_indexCount :: "32 word"

record LegacySpriteBatch =
  l_Vertices :: "Vertex2D list"
  l_Indices :: "32 word list"
  l_VertexBuffer :: "Vertex2D list"
  l_IndexBuffer :: "32 word list"
  l_Batches :: "LegacyBatchInfo list"
  l_CurrentTexture :: TexturePtr
  l_CurrentCamera :: CameraPtr
  l_MaxSprites :: "32 word"
  l_SpriteCount :: "32 word"
  l_DrawCallCount :: "32 word"
  l_IsBatching :: bool
  l_WhiteTexture :: nat

definition LegacySpriteBatch_new :: "nat \<Rightarrow> 32 word \<Rightarrow> LegacySpriteBatch" where
  "LegacySpriteBatch_new whiteTexture maxSprites =
     \<lparr>l_Vertices = [],
      l_Indices = [],
      l_VertexBuffer = [],
      l_IndexBuffer = [],
      l_Batches = [],
      l_CurrentTexture = None,
      l_CurrentCamera = None,
      l_MaxSprites = maxSprites,
      l_SpriteCount = 0,
      l_DrawCallCount = 0,
      l_IsBatching = False,
      l_WhiteTexture = whiteTexture\<rparr>"

definition Legacy_Begin ::
  "CameraPtr \<Rightarrow> LegacySpriteBatch \<Rightarrow> (error + unit) \<times> LegacySpriteBatch"
where
  "Legacy_Begin camera s =
     (if l_IsBatching s
      then (Inl (runtime_error ''SpriteBatch::Begin called without ending previous batch''), s)
      else (Inr (),
            s\<lparr>l_IsBatching := True,
              l_CurrentCamera := camera,
              l_Vertices := [],
              l_Indices := [],
              l_Batches := [],
              l_SpriteCount := 0,
              l_DrawCallCount := 0,
              l_CurrentTexture := None\<rparr>))"

text \<open>\<^verbatim>\<open>Flush\<close> has an empty body.\<close>

definition Legacy_Flush :: "LegacySpriteBatch \<Rightarrow> LegacySpriteBatch" where
  "Legacy_Flush s = s"

text \<open>The batch that closes the indices recorded since the last batch.\<close>

definition Legacy_close_batch :: "LegacySpriteBatch \<Rightarrow> LegacySpriteBatch" where
  "Legacy_close_batch s =
     (let start = (if l_Batches s = [] then 0
                   else lb_startIndex (last (l_Batches s)) + lb_indexCount (last (l_Batches s)));
          batch = \<lparr>lb_texture = l_CurrentTexture s,
                   lb_startIndex = start,
                   lb_indexCount = word_of_nat (length (l_Indices s)) - start\<rparr>
      in if lb_indexCount batch > 0 then s\<lparr>l_Batches := l_Batches s @ [batch]\<rparr> else s)"

definition Legacy_Draw ::
  "fpu \<Rightarrow> TexturePtr \<Rightarrow> vec2 \<Rightarrow> vec2 \<Rightarrow> vec2 \<Rightarrow> vec2 \<Rightarrow> vec4 \<Rightarrow> float \<Rightarrow> vec2
     \<Rightarrow> LegacySpriteBatch \<Rightarrow> (error + unit) \<times> LegacySpriteBatch"
where
  "Legacy_Draw F texture position sz uvMin uvMax color rotation origin s =
     (if \<not> l_IsBatching s
      then (Inl (runtime_error ''SpriteBatch::Draw called without Begin''), s)
      else
        let s1 = (if l_SpriteCount s \<ge> l_MaxSprites s then Legacy_Flush s else s);
            texture' = (if texture = None then Some (l_WhiteTexture s1) else texture);
            s2 = (if texture' \<noteq> l_CurrentTexture s1
                  then (if l_CurrentTexture s1 \<noteq> None then Legacy_close_batch s1 else s1)
                         \<lparr>l_CurrentTexture := texture'\<rparr>
                  else s1);
            corners = map (rotate_corner F (fcos F rotation) (fsin F rotation) position)
                        [(fneg F (fst origin), fneg F (snd origin)),
                         (fsub F (fst sz) (fst origin), fneg F (snd origin)),
                         (fsub F (fst sz) (fst origin), fsub F (snd sz) (snd origin)),
                         (fneg F (fst origin), fsub F (snd sz) (snd origin))];
            baseVertex = (word_of_nat (length (l_Vertices s2)) :: 32 word);
            vtx = (\<lambda>k uv. \<lparr>v_position = (fst (corners ! k), snd (corners ! k), Fin 0),
                             v_color = color,
                             v_texCoord = uv\<rparr>)
        in (Inr (),
            s2\<lparr>l_Vertices := l_Vertices s2 @
                   [vtx 0 (fst uvMin, snd uvMin),
                    vtx 1 (fst uvMax, snd uvMin),
                    vtx 2 (fst uvMax, snd uvMax),
                    vtx 3 (fst uvMin, snd uvMax)],
               l_Indices := l_Indices s2 @
                   [baseVertex + 0, baseVertex + 1, baseVertex + 2,
                    baseVertex + 2, baseVertex + 3, baseVertex + 0],
               l_SpriteCount := l_SpriteCount s2 + 1\<rparr>))"

definition Legacy_End :: "LegacySpriteBatch \<Rightarrow> (error + unit) \<times> LegacySpriteBatch" where
  "Legacy_End s =
     (if \<not> l_IsBatching s
      then (Inl (runtime_error ''SpriteBatch::End called without Begin''), s)
      else
        let s1 = (if l_CurrentTexture s \<noteq> None \<and> l_Vertices s \<noteq> []
                  then Legacy_close_batch s else s)
        in case (if l_Vertices s1 \<noteq> []
                 then mapped_memcpy (unat (l_MaxSprites s1) * 4) (l_VertexBuffer s1) (l_Vertices s1)
                 else Some (l_VertexBuffer s1)) of
             None \<Rightarrow> (Inl buffer_overrun, s1)
           | Some vertexBuffer \<Rightarrow>
               (case (if l_Indices s1 \<noteq> []
                      then mapped_memcpy (unat (l_MaxSprites s1) * 6) (l_IndexBuffer s1)
                             (l_Indices s1)
                      else Some (l_IndexBuffer s1)) of
                  None \<Rightarrow> (Inl buffer_overrun, s1\<lparr>l_VertexBuffer := vertexBuffer\<rparr>)
                | Some indexBuffer \<Rightarrow>
                    (Inr (),
                     s1\<lparr>l_VertexBuffer := vertexBuffer,
                        l_IndexBuffer := indexBuffer,
                        l_DrawCallCount := word_of_nat (length (l_Batches s1)),
                        l_IsBatching := False\<rparr>)))"

section \<open>Camera2D\<close>

text \<open>
  The matrix functions of the GLM library are inputs.  \<open>zoom_floor\<close> is the value of
  the literal \<^verbatim>\<open>0.1f\<close>, the binary32 number nearest to one tenth.
\<close>

record glm =
  glm_identity :: mat4
  glm_scale :: "mat4 \<Rightarrow> vec3 \<Rightarrow> mat4"
  glm_rotate :: "mat4 \<Rightarrow> float \<Rightarrow> vec3 \<Rightarrow> mat4"
  glm_translate :: "mat4 \<Rightarrow> vec3 \<Rightarrow> mat4"
  glm_ortho :: "float \<Rightarrow> float \<Rightarrow> float \<Rightarrow> float \<Rightarrow> float \<Rightarrow> float \<Rightarrow> mat4"
  glm_mul :: "mat4 \<Rightarrow> mat4 \<Rightarrow> mat4"

record Camera2D =
  m_Position :: vec2
  m_Rotation :: float
  m_Zoom :: float
  m_ViewportWidth :: float
  m_ViewportHeight :: float
  m_ViewMatrix :: mat4
  m_ProjectionMatrix :: mat4
  m_ViewDirty :: bool
  m_ProjectionDirty :: bool

definition zoom_floor :: float where
  "zoom_floor = Fin (13421773 / 134217728)"

definition view_matrix :: "glm \<Rightarrow> fpu \<Rightarrow> vec2 \<Rightarrow> float \<Rightarrow> float \<Rightarrow> mat4" where
  "view_matrix G F position rotation zoom =
     glm_translate G
       (glm_rotate G
          (glm_scale G (glm_identity G) (zoom, zoom, Fin 1))
          rotation (Fin 0, Fin 0, Fin 1))
       (fneg F (fst position), fneg F (snd position), Fin 0)"

definition UpdateViewMatrix :: "glm \<Rightarrow> fpu \<Rightarrow> Camera2D \<Rightarrow> Camera2D" where
  "UpdateViewMatrix G F c =
     c\<lparr>m_ViewMatrix := view_matrix G F (m_Position c) (m_Rotation c) (m_Zoom c),
       m_ViewDirty := False\<rparr>"

definition UpdateProjectionMatrix :: "glm \<Rightarrow> Camera2D \<Rightarrow> Camera2D" where
  "UpdateProjectionMatrix G c =
     c\<lparr>m_ProjectionMatrix :=
         glm_ortho G (Fin 0) (m_ViewportWidth c) (Fin 0) (m_ViewportHeight c) (Fin (- 1)) (Fin 1),
       m_ProjectionDirty := False\<rparr>"

definition Camera2D_new :: "glm \<Rightarrow> fpu \<Rightarrow> float \<Rightarrow> float \<Rightarrow> Camera2D" where
  "Camera2D_new G F width height =
     UpdateProjectionMatrix G
       (UpdateViewMatrix G F
          \<lparr>m_Position = (Fin 0, Fin 0),
           m_Rotation = Fin 0,
           m_Zoom = Fin 1,
           m_ViewportWidth = width,
           m_ViewportHeight = height,
           m_ViewMatrix = glm_identity G,
           m_ProjectionMatrix = glm_identity G,
           m_ViewDirty = True,
           m_ProjectionDirty = True\<rparr>)"

definition SetZoom :: "float \<Rightarrow> Camera2D \<Rightarrow> Camera2D" where
  "SetZoom zoom c =
     (let c1 = c\<lparr>m_Zoom := zoom\<rparr>;
          c2 = (if float_less (m_Zoom c1) zoom_floor then c1\<lparr>m_Zoom := zoom_floor\<rparr> else c1)
      in c2\<lparr>m_ViewDirty := True\<rparr>)"

definition Zoom :: "fpu \<Rightarrow> float \<Rightarrow> Camera2D \<Rightarrow> Camera2D" where
  "Zoom F delta c =
     (let c1 = c\<lparr>m_Zoom := fadd F (m_Zoom c) delta\<rparr>;
          c2 = (if float_less (m_Zoom c1) zoom_floor then c1\<lparr>m_Zoom := zoom_floor\<rparr> else c1)
      in c2\<lparr>m_ViewDirty := True\<rparr>)"

text \<open>The getters return the cached matrix and the camera after the lazy update.\<close>

definition GetViewMatrix :: "glm \<Rightarrow> fpu \<Rightarrow> Camera2D \<Rightarrow> mat4 \<times> Camera2D" where
  "GetViewMatrix G F c =
     (let c' = (if m_ViewDirty c then UpdateViewMatrix G F c else c)
      in (m_ViewMatrix c', c'))"

definition GetProjectionMatrix :: "glm \<Rightarrow> Camera2D \<Rightarrow> mat4 \<times> Camera2D" where
  "GetProjectionMatrix G c =
     (let c' = (if m_ProjectionDirty c then UpdateProjectionMatrix G c else c)
      in (m_ProjectionMatrix c', c'))"

definition GetViewProjectionMatrix :: "glm \<Rightarrow> fpu \<Rightarrow> Camera2D \<Rightarrow> mat4 \<times> Camera2D" where
  "GetViewProjectionMatrix G F c =
     (case GetProjectionMatrix G c of
        (p, c1) \<Rightarrow> (case GetViewMatrix G F c1 of (v, c2) \<Rightarrow> (glm_mul G p v, c2)))"

section \<open>TextRenderer\<close>










section \<open>Notions used to state the properties\<close>

text \<open>The texture a request is keyed on, and the record an accepted request leaves.\<close>

definition key_texture :: "nat \<Rightarrow> DrawCall \<Rightarrow> TexturePtr" where
  "key_texture white d = (if dc_texture d = None then Some white else dc_texture d)"

definition recorded :: "nat \<Rightarrow> DrawCall \<Rightarrow> SpriteData" where
  "recorded white d =
     \<lparr>sd_texture = key_texture white d,
      sd_instance =
        \<lparr>i_position = dc_position d,
         i_size = dc_size d,
         i_origin = dc_origin d,
         i_rotation = dc_rotation d,
         i_padding = Fin 0,
         i_color = dc_color d,
         i_uvRect = (fst (dc_uvMin d), snd (dc_uvMin d), fst (dc_uvMax d), snd (dc_uvMax d))\<rparr>\<rparr>"

text \<open>The instance indices a batch covers, in order.\<close>

definition batch_range :: "BatchInfo \<Rightarrow> nat list" where
  "batch_range b =
     [unat (startInstance b) ..< unat (startInstance b) + unat (instanceCount b)]"

definition batch_ranges :: "BatchInfo list \<Rightarrow> nat list" where
  "batch_ranges bs = concat (map batch_range bs)"

text \<open>The records a frame keeps of the requests \<open>ds\<close>: the first \<^verbatim>\<open>m_MaxSprites\<close> of them.\<close>

definition accepted :: "SpriteBatch \<Rightarrow> DrawCall list \<Rightarrow> SpriteData list" where
  "accepted s ds = take (unat (m_MaxSprites s)) (map (recorded (m_WhiteTexture s)) ds)"





text \<open>The object between the last \<^verbatim>\<open>Draw\<close> and \<^verbatim>\<open>End\<close> of a frame started in \<open>s\<close>.\<close>

definition pending :: "CameraPtr \<Rightarrow> DrawCall list \<Rightarrow> SpriteBatch \<Rightarrow> SpriteBatch" where
  "pending camera ds s = (snd (Begin camera s))\<lparr>m_SpriteDataList := accepted s ds\<rparr>"

text \<open>
  What \<^verbatim>\<open>End\<close> finds in a frame that was opened by \<^verbatim>\<open>Begin\<close>: the engine is batching,
  nothing has been built yet, and the pending requests fit the capacity.
\<close>

definition End_ready :: "SpriteBatch \<Rightarrow> bool" where
  "End_ready s \<longleftrightarrow>
     m_IsBatching s \<and> m_Instances s = [] \<and> m_Batches s = [] \<and> m_Vertices s = []
     \<and> m_Indices s = [] \<and> length (m_SpriteDataList s) \<le> unat (m_MaxSprites s)"

text \<open>
  The object the constructor leaves: \<open>whiteTexture\<close> is the address of the texture made
  by \<^verbatim>\<open>Texture::CreateWhiteTexture\<close>, \<open>dev\<close> the device state after the buffers, the
  descriptor pool and the pipelines have been created.  \<^verbatim>\<open>CreateInstancedPipeline\<close> clears
  \<^verbatim>\<open>m_UseInstancing\<close> on both of its paths.
\<close>

definition SpriteBatch_new :: "nat \<Rightarrow> 32 word \<Rightarrow> nat \<Rightarrow> SpriteBatch" where
  "SpriteBatch_new whiteTexture maxSprites dev =
     \<lparr>m_Vertices = [],
      m_Indices = [],
      m_VertexBuffer = [],
      m_IndexBuffer = [],
      m_FrameData = [\<lparr>instanceStagingBuffer = [], needsUpload = False\<rparr>,
                     \<lparr>instanceStagingBuffer = [], needsUpload = False\<rparr>],
      m_CurrentFrameIndex = 0,
      m_SpriteDataList = [],
      m_Instances = [],
      m_Batches = [],
      m_DescriptorSets = Map.empty,
      m_CurrentCamera = None,
      m_MaxSprites = maxSprites,
      m_IsBatching = False,
      m_EnableTextureSorting = True,
      m_UseInstancing = False,
      m_Statistics = BatchStatistics_zero,
      m_WhiteTexture = whiteTexture,
      vkDevice = dev\<rparr>"

text \<open>Concrete inputs for the examples: an arithmetic unit, and untransformed quads.\<close>

definition fpu_exact :: fpu where
  "fpu_exact =
     \<lparr>fadd = (\<lambda>a b. case (a, b) of (Fin x, Fin y) \<Rightarrow> Fin (x + y) | _ \<Rightarrow> NaN),
      fsub = (\<lambda>a b. case (a, b) of (Fin x, Fin y) \<Rightarrow> Fin (x - y) | _ \<Rightarrow> NaN),
      fmul = (\<lambda>a b. case (a, b) of (Fin x, Fin y) \<Rightarrow> Fin (x * y) | _ \<Rightarrow> NaN),
      fdiv = (\<lambda>a b. case (a, b) of (Fin x, Fin y) \<Rightarrow> (if y = 0 then NaN else Fin (x / y))
                                   | _ \<Rightarrow> NaN),
      fneg = (\<lambda>a. case a of Fin x \<Rightarrow> Fin (- x) | NegInf \<Rightarrow> PosInf | PosInf \<Rightarrow> NegInf | NaN \<Rightarrow> NaN),
      fcos = (\<lambda>a. case a of Fin x \<Rightarrow> Fin (cos x) | _ \<Rightarrow> NaN),
      fsin = (\<lambda>a. case a of Fin x \<Rightarrow> Fin (sin x) | _ \<Rightarrow> NaN),
      f_of_u32 = (\<lambda>w. Fin (real (unat w))),
      f_of_i32 = (\<lambda>i. Fin (real_of_int i))\<rparr>"

text \<open>A driver that hands out descriptor sets 0, 1, 2, ... up to the pool size of 2048.\<close>

definition vulkan_example :: vulkan where
  "vulkan_example =
     \<lparr>swapChainExtent = (800, 600),
      viewProjectionMatrix = (\<lambda>camera. replicate 16 (Fin 0)),
      vkAllocateDescriptorSets = (\<lambda>dev. if dev < 2048 then Some (dev, dev + 1) else None),
      vkUpdateDescriptorSets = (\<lambda>descriptorSet a dev. dev)\<rparr>"

text \<open>
  A matrix library for the examples that represents a matrix by the list of the
  arguments it was built from, and a camera for an 800 by 600 viewport.
\<close>

definition glm_example :: glm where
  "glm_example =
     \<lparr>glm_identity = [],
      glm_scale = (\<lambda>m v. m @ [fst v, fst (snd v), snd (snd v)]),
      glm_rotate = (\<lambda>m angle axis. m @ [angle]),
      glm_translate = (\<lambda>m v. m @ [fst v, fst (snd v), snd (snd v)]),
      glm_ortho = (\<lambda>l r b t n f. [l, r, b, t, n, f]),
      glm_mul = (\<lambda>a b. a @ b)\<rparr>"

definition camera_example :: Camera2D where
  "camera_example = Camera2D_new glm_example fpu_exact (Fin 800) (Fin 600)"


definition quad :: "TexturePtr \<Rightarrow> DrawCall" where
  "quad t =
     \<lparr>dc_texture = t,
      dc_position = (Fin 0, Fin 0),
      dc_size = (Fin 1, Fin 1),
      dc_uvMin = (Fin 0, Fin 0),
      dc_uvMax = (Fin 1, Fin 1),
      dc_color = (Fin 1, Fin 1, Fin 1, Fin 1),
      dc_rotation = Fin 0,
      dc_origin = (Fin 0, Fin 0)\<rparr>"

section \<open>Properties of the batching engine\<close>

subsection \<open>Unsigned 32-bit arithmetic\<close>

lemma unat_u32_of_nat: "n < 2 ^ 32 \<Longrightarrow> unat (word_of_nat n :: 32 word) = n"
  by (simp add: unat_of_nat)

lemma unat_u32_diff:
  assumes "unat st \<le> n" "n < 2 ^ 32"
  shows "unat (word_of_nat n - st :: 32 word) = n - unat st"
proof -
  have "st \<le> (word_of_nat n :: 32 word)"
    using assms by (simp add: word_le_nat_alt unat_u32_of_nat)
  then show ?thesis
    using assms by (simp add: unat_sub unat_u32_of_nat)
qed




subsection \<open>The stable sort\<close>

lemma insert_by_insort_key:
  "insert_by (\<lambda>a b. f a < f b) x ys = insort_key f x ys"
  by (induction ys) (auto simp: not_less)

lemma stable_sort_sort_key:
  "stable_sort (\<lambda>a b. f a < f b) xs = sort_key f xs"
  by (induction xs) (simp_all add: stable_sort_def insert_by_insort_key)

lemma sorted_wrt_filter_nth:
  assumes "sorted_wrt R (filter P xs)" and "q < p" and "p < length xs"
    and "P (xs ! q)" and "P (xs ! p)"
  shows "R (xs ! q) (xs ! p)"
proof -
  have split: "xs = take p xs @ xs ! p # drop (Suc p) xs"
    using assms(3) by (rule id_take_nth_drop)
  have "sorted_wrt R (filter P (take p xs) @ xs ! p # filter P (drop (Suc p) xs))"
    using assms(1,5) by (subst (asm) split) simp
  then have all: "\<forall>a \<in> set (filter P (take p xs)). R a (xs ! p)"
    by (simp add: sorted_wrt_append)
  have "xs ! q \<in> set (take p xs)"
    using assms(2,3) by (metis length_take min.absorb2 less_imp_le_nat nth_mem nth_take)
  then show ?thesis using all assms(4) by simp
qed

lemma map_fst_insort_key:
  "map fst (insort_key (\<lambda>e. k (fst e)) e es) = insort_key k (fst e) (map fst es)"
  by (induction es) simp_all

lemma map_fst_sort_key:
  "map fst (sort_key (\<lambda>e. k (fst e)) es) = sort_key k (map fst es)"
  by (induction es) (simp_all add: map_fst_insort_key)

lemma sort_key_tags:
  fixes k :: "'a \<Rightarrow> 'k :: linorder"
  shows "\<exists>tags. mset tags = mset [0..<length xs]
           \<and> sort_key k xs = map ((!) xs) tags
           \<and> (\<forall>p q. p < length tags \<and> q < length tags \<and> tags ! p < tags ! q
                     \<and> k (xs ! (tags ! p)) = k (xs ! (tags ! q)) \<longrightarrow> p < q)"
proof -
  define Z where "Z = zip xs [0..<length xs]"
  define T where "T = sort_key (\<lambda>e. k (fst e)) Z"
  define tags where "tags = map snd T"
  have lenT: "length T = length xs" by (simp add: T_def Z_def)
  have m: "mset tags = mset [0..<length xs]"
  proof -
    have "mset tags = image_mset snd (mset Z)" by (simp add: tags_def T_def)
    also have "\<dots> = mset (map snd Z)" by simp
    also have "map snd Z = [0..<length xs]" by (simp add: Z_def)
    finally show ?thesis .
  qed
  have el: "fst e = xs ! snd e" if "e \<in> set T" for e
  proof -
    from that have "e \<in> set Z" by (simp add: T_def)
    then show ?thesis by (auto simp: Z_def in_set_zip)
  qed
  have "map fst T = map ((!) xs) tags"
    using el by (simp add: tags_def)
  moreover have "map fst T = sort_key k xs"
    by (simp add: T_def map_fst_sort_key Z_def)
  ultimately have s: "sort_key k xs = map ((!) xs) tags" by simp
  have ord: "p < q" if pq: "p < length tags" "q < length tags" "tags ! p < tags ! q"
      "k (xs ! (tags ! p)) = k (xs ! (tags ! q))" for p q
  proof (rule ccontr)
    assume "\<not> p < q"
    moreover have "p \<noteq> q" using pq(3) by auto
    ultimately have qp: "q < p" by simp
    let ?c = "k (xs ! (tags ! p))"
    let ?P = "\<lambda>e. k (fst e) = ?c"
    let ?R = "\<lambda>a b :: 'a \<times> nat. snd a < snd b"
    have lp: "p < length T" "q < length T" using pq(1,2) by (simp_all add: tags_def)
    have "sorted_wrt (<) (map snd Z)" by (simp add: Z_def)
    then have "sorted_wrt ?R Z" by (simp add: sorted_wrt_map)
    then have "sorted_wrt ?R (filter ?P Z)" by (rule sorted_wrt_filter)
    then have sw: "sorted_wrt ?R (filter ?P T)" by (simp add: T_def sort_key_stable)
    have kp: "?P (T ! p)" using el[of "T ! p"] lp(1) by (simp add: tags_def)
    have kq: "?P (T ! q)" using el[of "T ! q"] lp(2) pq(4) by (simp add: tags_def)
    have "?R (T ! q) (T ! p)"
      by (rule sorted_wrt_filter_nth[OF sw qp lp(1) kq kp])
    then have "tags ! q < tags ! p" using lp by (simp add: tags_def)
    then show False using pq(3) by simp
  qed
  show ?thesis using m s ord by blast
qed

lemma identity_tags:
  "mset [0..<length xs] = mset [0..<length xs]
   \<and> xs = map ((!) xs) [0..<length xs]
   \<and> (\<forall>p q. p < length [0..<length xs] \<and> q < length [0..<length xs]
           \<and> [0..<length xs] ! p < [0..<length xs] ! q
           \<and> k (xs ! ([0..<length xs] ! p)) = k (xs ! ([0..<length xs] ! q)) \<longrightarrow> p < q)"
  by (auto simp: map_nth)

subsection \<open>Recording requests\<close>

lemma Draw_call_idle:
  "\<not> m_IsBatching s \<Longrightarrow> Draw_call d s = (Inl (runtime_error ''SpriteBatch::Draw called without Begin''), s)"
  by (simp add: Draw_call_def Draw_def)

lemma Draw_call_full:
  "m_IsBatching s \<Longrightarrow> unat (m_MaxSprites s) \<le> length (m_SpriteDataList s) \<Longrightarrow> Draw_call d s = (Inr (), s)"
  by (simp add: Draw_call_def Draw_def)

lemma Draw_call_accept:
  "m_IsBatching s \<Longrightarrow> length (m_SpriteDataList s) < unat (m_MaxSprites s) \<Longrightarrow>
   Draw_call d s = (Inr (), s\<lparr>m_SpriteDataList := m_SpriteDataList s @ [recorded (m_WhiteTexture s) d]\<rparr>)"
  by (simp add: Draw_call_def Draw_def recorded_def key_texture_def Let_def)


lemma DrawAll_batching:
  "m_IsBatching s \<Longrightarrow>
   DrawAll ds s =
     (Inr (), s\<lparr>m_SpriteDataList :=
                 m_SpriteDataList s @
                 take (unat (m_MaxSprites s) - length (m_SpriteDataList s))
                      (map (recorded (m_WhiteTexture s)) ds)\<rparr>)"
proof (induction ds arbitrary: s)
  case Nil
  then show ?case by simp
next
  case (Cons d ds)
  show ?case
  proof (cases "length (m_SpriteDataList s) < unat (m_MaxSprites s)")
    case True
    let ?s' = "s\<lparr>m_SpriteDataList := m_SpriteDataList s @ [recorded (m_WhiteTexture s) d]\<rparr>"
    have b: "m_IsBatching ?s'" using Cons.prems by simp
    obtain k where k: "unat (m_MaxSprites s) - length (m_SpriteDataList s) = Suc k"
      using True by (metis Suc_diff_Suc)
    then have k': "unat (m_MaxSprites s) - Suc (length (m_SpriteDataList s)) = k" by simp
    show ?thesis
      using Cons.prems True
      by (simp add: Draw_call_accept Cons.IH[OF b] k k')
  next
    case False
    then show ?thesis
      using Cons.prems by (simp add: Draw_call_full Cons.IH)
  qed
qed

lemma accepted_textures: "\<forall>d \<in> set (accepted s ds). sd_texture d \<noteq> None"
  by (auto simp: accepted_def recorded_def key_texture_def dest!: in_set_takeD)

lemma length_accepted: "length (accepted s ds) = min (length ds) (unat (m_MaxSprites s))"
  by (simp add: accepted_def min.commute)

lemma length_accepted_u32: "length (accepted s ds) < 2 ^ 32"
proof -
  have "unat (m_MaxSprites s) < 2 ^ 32" using unsigned_less[of "m_MaxSprites s"] by simp
  then show ?thesis by (simp add: length_accepted)
qed

lemma accepted_all:
  "length ds \<le> unat (m_MaxSprites s) \<Longrightarrow> accepted s ds = map (recorded (m_WhiteTexture s)) ds"
  by (simp add: accepted_def)

lemma recorded_substitute:
  "recorded w (d\<lparr>dc_texture := key_texture w d\<rparr>) = recorded w d"
  by (simp add: recorded_def key_texture_def)

subsection \<open>Sorting and building batches\<close>

lemma SortBatches_list:
  "m_SpriteDataList (SortBatches s) =
     (if m_EnableTextureSorting s then sort_key sd_texture (m_SpriteDataList s)
      else m_SpriteDataList s)"
  by (auto simp: SortBatches_def stable_sort_sort_key)

lemma SortBatches_other [simp]:
  "m_Batches (SortBatches s) = m_Batches s"
  "m_Instances (SortBatches s) = m_Instances s"
  "m_Vertices (SortBatches s) = m_Vertices s"
  "m_Indices (SortBatches s) = m_Indices s"
  "m_MaxSprites (SortBatches s) = m_MaxSprites s"
  "m_IsBatching (SortBatches s) = m_IsBatching s"
  by (simp_all add: SortBatches_def)

lemma batch_range_closed:
  assumes "unat st \<le> n" "n < 2 ^ 32"
  shows "batch_range \<lparr>b_texture = t, startInstance = st, instanceCount = word_of_nat n - st\<rparr>
         = [unat st ..< n]"
  using assms by (simp add: batch_range_def unat_u32_diff)

lemma batch_ranges_snoc: "batch_ranges (bs @ [b]) = batch_ranges bs @ batch_range b"
  by (simp add: batch_ranges_def)


lemma upt_append_upt: "a \<le> b \<Longrightarrow> [0..<a] @ [a..<b] = [0..<b]"
  by (metis le0 upt_add_eq_append le_add_diff_inverse)

lemma BuildBatches_loop_ranges:
  assumes "\<forall>d \<in> set xs. sd_texture d \<noteq> None"
    and "i + length xs < 2 ^ 32"
    and "cur = None \<longrightarrow> i = 0 \<and> st = 0"
    and "cur \<noteq> None \<longrightarrow> unat st < i"
    and "batch_ranges bs = [0..<unat st]"
    and "BuildBatches_loop i xs (cur, st, bs, insts) = (cur', st', bs', insts')"
  shows "batch_ranges bs' = [0..<unat st'] \<and> unat st' \<le> i + length xs
         \<and> (cur \<noteq> None \<or> xs \<noteq> [] \<longrightarrow> cur' \<noteq> None \<and> unat st' < i + length xs)
         \<and> insts' = insts @ map sd_instance xs"
  using assms
proof (induction xs arbitrary: i cur st bs insts)
  case Nil
  then show ?case by auto
next
  case (Cons x xs)
  have tx: "sd_texture x \<noteq> None" using Cons.prems(1) by simp
  have rest: "\<forall>d \<in> set xs. sd_texture d \<noteq> None" using Cons.prems(1) by simp
  have bound: "Suc i + length xs < 2 ^ 32" using Cons.prems(2) by simp
  have i32: "i < 2 ^ 32" using Cons.prems(2) by simp
  show ?case
  proof (cases "sd_texture x = cur")
    case True
    then have cur: "cur \<noteq> None" using tx by simp
    have run: "BuildBatches_loop (Suc i) xs (cur, st, bs, insts @ [sd_instance x]) = (cur', st', bs', insts')"
      using Cons.prems(6) True by simp
    have "unat st < Suc i" using Cons.prems(4) cur by simp
    then have h4: "cur \<noteq> None \<longrightarrow> unat st < Suc i" by simp
    have h3: "cur = None \<longrightarrow> Suc i = 0 \<and> st = 0" using cur by simp
    from Cons.IH[OF rest bound h3 h4 Cons.prems(5) run] cur
    show ?thesis by simp
  next
    case False
    let ?bs = "if cur \<noteq> None \<and> i > unat st
               then bs @ [\<lparr>b_texture = cur, startInstance = st, instanceCount = word_of_nat i - st\<rparr>]
               else bs"
    have run: "BuildBatches_loop (Suc i) xs (sd_texture x, word_of_nat i, ?bs, insts @ [sd_instance x])
               = (cur', st', bs', insts')"
      using Cons.prems(6) False by simp
    have st_i: "unat (word_of_nat i :: 32 word) = i" using i32 by (rule unat_u32_of_nat)
    have rng: "batch_ranges ?bs = [0..<i]"
    proof (cases "cur = None")
      case True
      then show ?thesis using Cons.prems(3,5) by simp
    next
      case False
      then have lt: "unat st < i" using Cons.prems(4) by simp
      then show ?thesis
        using False Cons.prems(5) i32
        by (simp add: batch_ranges_snoc batch_range_closed upt_append_upt)
    qed
    have h5: "batch_ranges ?bs = [0..<unat (word_of_nat i :: 32 word)]" using rng st_i by simp
    have h4: "sd_texture x \<noteq> None \<longrightarrow> unat (word_of_nat i :: 32 word) < Suc i" using st_i by simp
    have h3: "sd_texture x = None \<longrightarrow> Suc i = 0 \<and> (word_of_nat i :: 32 word) = 0" using tx by simp
    from Cons.IH[OF rest bound h3 h4 h5 run] tx
    show ?thesis by simp
  qed
qed

lemma BuildBatches_list [simp]:
  "m_SpriteDataList (BuildBatches s) = m_SpriteDataList s"
  by (simp add: BuildBatches_def split: prod.splits)

lemma BuildBatches_other [simp]:
  "m_Vertices (BuildBatches s) = m_Vertices s"
  "m_Indices (BuildBatches s) = m_Indices s"
  by (simp_all add: BuildBatches_def split: prod.splits)

lemma BuildBatches_ranges:
  assumes "\<forall>d \<in> set (m_SpriteDataList s). sd_texture d \<noteq> None"
    and "length (m_SpriteDataList s) < 2 ^ 32"
    and "m_Batches s = []" and "m_Instances s = []"
  shows "batch_ranges (m_Batches (BuildBatches s)) = [0..<length (m_SpriteDataList s)]"
    and "m_Instances (BuildBatches s) = map sd_instance (m_SpriteDataList s)"
proof -
  let ?xs = "m_SpriteDataList s"
  obtain cur st bs insts where
    run: "BuildBatches_loop 0 ?xs (None, 0, [], []) = (cur, st, bs, insts)"
    by (metis prod_cases4)
  have inv: "batch_ranges bs = [0..<unat st] \<and> unat st \<le> 0 + length ?xs
         \<and> (None \<noteq> (None :: TexturePtr) \<or> ?xs \<noteq> [] \<longrightarrow> cur \<noteq> None \<and> unat st < 0 + length ?xs)
         \<and> insts = [] @ map sd_instance ?xs"
    by (rule BuildBatches_loop_ranges[OF assms(1) _ _ _ _ run])
       (use assms(2) in \<open>simp_all add: batch_ranges_def\<close>)
  show "batch_ranges (m_Batches (BuildBatches s)) = [0..<length ?xs]"
  proof (cases "?xs = []")
    case True
    then show ?thesis using assms(3) by (simp add: BuildBatches_def batch_ranges_def)
  next
    case False
    then have "cur \<noteq> None" "unat st < length ?xs" using inv by auto
    then show ?thesis
      using False inv assms(2,3,4) run
      by (simp add: BuildBatches_def batch_ranges_snoc batch_range_closed upt_append_upt)
  qed
  show "m_Instances (BuildBatches s) = map sd_instance ?xs"
  proof (cases "?xs = []")
    case True
    then show ?thesis using assms(4) by (simp add: BuildBatches_def)
  next
    case False
    then show ?thesis
      using inv assms(3,4) run by (simp add: BuildBatches_def)
  qed
qed

lemma BuildBatches_loop_textures:
  assumes "\<forall>d \<in> set xs. sd_texture d \<noteq> None"
    and "length all < 2 ^ 32"
    and "xs = drop i all" and "i \<le> length all"
    and "cur \<noteq> None \<longrightarrow> unat st < i"
    and "\<forall>j. unat st \<le> j \<and> j < i \<longrightarrow> sd_texture (all ! j) = cur"
    and "\<forall>b \<in> set bs. \<forall>j \<in> set (batch_range b). sd_texture (all ! j) = b_texture b"
    and "BuildBatches_loop i xs (cur, st, bs, insts) = (cur', st', bs', insts')"
  shows "(\<forall>b \<in> set bs'. \<forall>j \<in> set (batch_range b). sd_texture (all ! j) = b_texture b)
       \<and> (\<forall>j. unat st' \<le> j \<and> j < length all \<longrightarrow> sd_texture (all ! j) = cur')"
  using assms
proof (induction xs arbitrary: i cur st bs insts)
  case Nil
  then have "i = length all" by simp
  then show ?case using Nil.prems by simp
next
  case (Cons x xs)
  have il: "i < length all" using Cons.prems(3,4)
    by (metis drop_all leI list.distinct(1))
  have x: "x = all ! i" using Cons.prems(3) il
    by (metis Cons_nth_drop_Suc list.inject)
  have rest: "xs = drop (Suc i) all" using Cons.prems(3) il
    by (metis Cons_nth_drop_Suc list.inject)
  have tx: "sd_texture x \<noteq> None" using Cons.prems(1) by simp
  have restt: "\<forall>d \<in> set xs. sd_texture d \<noteq> None" using Cons.prems(1) by simp
  have sl: "Suc i \<le> length all" using il by simp
  have i32: "i < 2 ^ 32" using il Cons.prems(2) by simp
  show ?case
  proof (cases "sd_texture x = cur")
    case True
    then have cur: "cur \<noteq> None" using tx by simp
    have run: "BuildBatches_loop (Suc i) xs (cur, st, bs, insts @ [sd_instance x]) = (cur', st', bs', insts')"
      using Cons.prems(8) True by simp
    have h5: "cur \<noteq> None \<longrightarrow> unat st < Suc i" using Cons.prems(5) cur by simp
    have h6: "\<forall>j. unat st \<le> j \<and> j < Suc i \<longrightarrow> sd_texture (all ! j) = cur"
      using Cons.prems(6) True x by (auto simp: less_Suc_eq)
    show ?thesis
      by (rule Cons.IH[OF restt Cons.prems(2) rest sl h5 h6 Cons.prems(7) run])
  next
    case False
    let ?bs = "if cur \<noteq> None \<and> i > unat st
               then bs @ [\<lparr>b_texture = cur, startInstance = st, instanceCount = word_of_nat i - st\<rparr>]
               else bs"
    have run: "BuildBatches_loop (Suc i) xs (sd_texture x, word_of_nat i, ?bs, insts @ [sd_instance x])
               = (cur', st', bs', insts')"
      using Cons.prems(8) False by simp
    have st_i: "unat (word_of_nat i :: 32 word) = i" using i32 by (rule unat_u32_of_nat)
    have h5: "sd_texture x \<noteq> None \<longrightarrow> unat (word_of_nat i :: 32 word) < Suc i" using st_i by simp
    have h6: "\<forall>j. unat (word_of_nat i :: 32 word) \<le> j \<and> j < Suc i
                \<longrightarrow> sd_texture (all ! j) = sd_texture x"
      using st_i x by (auto simp: less_Suc_eq)
    have h7: "\<forall>b \<in> set ?bs. \<forall>j \<in> set (batch_range b). sd_texture (all ! j) = b_texture b"
    proof (cases "cur \<noteq> None \<and> i > unat st")
      case True
      then have "batch_range \<lparr>b_texture = cur, startInstance = st,
                   instanceCount = word_of_nat i - st\<rparr> = [unat st ..< i]"
        using i32 by (simp add: batch_range_closed)
      then show ?thesis using True Cons.prems(6,7) by auto
    next
      case False
      then have "?bs = bs" by (simp only: if_False)
      then show ?thesis using Cons.prems(7) by (simp only:)
    qed
    show ?thesis
      by (rule Cons.IH[OF restt Cons.prems(2) rest sl h5 h6 h7 run])
  qed
qed

lemma BuildBatches_textures:
  assumes "\<forall>d \<in> set (m_SpriteDataList s). sd_texture d \<noteq> None"
    and "length (m_SpriteDataList s) < 2 ^ 32"
    and "m_Batches s = []" and "m_Instances s = []"
  shows "\<forall>b \<in> set (m_Batches (BuildBatches s)). \<forall>j \<in> set (batch_range b).
           sd_texture (m_SpriteDataList s ! j) = b_texture b"
proof (cases "m_SpriteDataList s = []")
  case True
  then show ?thesis using assms(3) by (simp add: BuildBatches_def)
next
  case False
  let ?xs = "m_SpriteDataList s"
  obtain cur st bs insts where
    run: "BuildBatches_loop 0 ?xs (None, 0, [], []) = (cur, st, bs, insts)"
    by (metis prod_cases4)
  have inv: "batch_ranges bs = [0..<unat st] \<and> unat st \<le> 0 + length ?xs
         \<and> (None \<noteq> (None :: TexturePtr) \<or> ?xs \<noteq> [] \<longrightarrow> cur \<noteq> None \<and> unat st < 0 + length ?xs)
         \<and> insts = [] @ map sd_instance ?xs"
    by (rule BuildBatches_loop_ranges[OF assms(1) _ _ _ _ run])
       (use assms(2) in \<open>simp_all add: batch_ranges_def\<close>)
  then have c: "cur \<noteq> None" "unat st < length ?xs" using False by auto
  have t: "(\<forall>b \<in> set bs. \<forall>j \<in> set (batch_range b). sd_texture (?xs ! j) = b_texture b)
       \<and> (\<forall>j. unat st \<le> j \<and> j < length ?xs \<longrightarrow> sd_texture (?xs ! j) = cur)"
    by (rule BuildBatches_loop_textures[OF assms(1,2) _ _ _ _ _ run]) simp_all
  have last: "batch_range \<lparr>b_texture = cur, startInstance = st,
                instanceCount = word_of_nat (length ?xs) - st\<rparr> = [unat st ..< length ?xs]"
    using c(2) assms(2) by (simp add: batch_range_closed)
  show ?thesis
    using False c(1) run assms(3,4) t last by (auto simp: BuildBatches_def)
qed






subsection \<open>The vertices and indices of the fallback path\<close>

lemma legacy_step_lengths:
  "length (fst (legacy_step F acc d)) = length (fst acc) + 4"
  "length (snd (legacy_step F acc d)) = length (snd acc) + 6"
  by (simp_all add: legacy_step_def Let_def)


lemma legacy_vertices_lengths:
  "length (fst (legacy_vertices F xs acc)) = length (fst acc) + 4 * length xs
   \<and> length (snd (legacy_vertices F xs acc)) = length (snd acc) + 6 * length xs"
  by (induction xs arbitrary: acc) (simp_all add: legacy_vertices_def legacy_step_lengths)


subsection \<open>End and whole frames\<close>

lemma SortBatches_keeps [simp]:
  "m_DescriptorSets (SortBatches s) = m_DescriptorSets s"
  "vkDevice (SortBatches s) = vkDevice s"
  "m_CurrentCamera (SortBatches s) = m_CurrentCamera s"
  by (simp_all add: SortBatches_def)

lemma BuildBatches_keeps [simp]:
  "m_MaxSprites (BuildBatches s) = m_MaxSprites s"
  "m_DescriptorSets (BuildBatches s) = m_DescriptorSets s"
  "vkDevice (BuildBatches s) = vkDevice s"
  "m_CurrentCamera (BuildBatches s) = m_CurrentCamera s"
  by (simp_all add: BuildBatches_def split: prod.splits)

lemma BuildBatches_loop_instances:
  "snd (snd (snd (BuildBatches_loop i xs (cur, st, bs, insts)))) = insts @ map sd_instance xs"
  by (induction xs arbitrary: i cur st bs insts) simp_all

lemma BuildBatches_Instances:
  "m_Instances (BuildBatches s) = m_Instances s @ map sd_instance (m_SpriteDataList s)"
proof (cases "m_SpriteDataList s = []")
  case True
  then show ?thesis by (simp add: BuildBatches_def)
next
  case False
  obtain cur st bs insts where
    run: "BuildBatches_loop 0 (m_SpriteDataList s) (None, 0, m_Batches s, m_Instances s)
          = (cur, st, bs, insts)"
    by (metis prod_cases4)
  have "insts = m_Instances s @ map sd_instance (m_SpriteDataList s)"
    using BuildBatches_loop_instances[of 0 "m_SpriteDataList s" None 0 "m_Batches s" "m_Instances s"]
    by (simp add: run)
  then show ?thesis using False run by (simp add: BuildBatches_def)
qed

lemma UploadInstanceData_other [simp]:
  "m_SpriteDataList (snd (UploadInstanceData s)) = m_SpriteDataList s"
  "m_Batches (snd (UploadInstanceData s)) = m_Batches s"
  "m_Instances (snd (UploadInstanceData s)) = m_Instances s"
  "m_Vertices (snd (UploadInstanceData s)) = m_Vertices s"
  "m_Indices (snd (UploadInstanceData s)) = m_Indices s"
  "m_MaxSprites (snd (UploadInstanceData s)) = m_MaxSprites s"
  "m_DescriptorSets (snd (UploadInstanceData s)) = m_DescriptorSets s"
  "vkDevice (snd (UploadInstanceData s)) = vkDevice s"
  "m_CurrentCamera (snd (UploadInstanceData s)) = m_CurrentCamera s"
  by (simp_all add: UploadInstanceData_def Let_def split: option.splits)

lemma UploadInstanceData_fst:
  "length (m_Instances s) \<le> unat (m_MaxSprites s) \<Longrightarrow> fst (UploadInstanceData s) = Inr ()"
  by (simp add: UploadInstanceData_def mapped_memcpy_def Let_def)

lemma UploadInstanceData_error:
  "fst (UploadInstanceData s) \<noteq> Inl (runtime_error message)"
  by (simp add: UploadInstanceData_def Let_def split: option.splits)

lemma generate_legacy_other [simp]:
  "m_SpriteDataList (generate_legacy F s) = m_SpriteDataList s"
  "m_Batches (generate_legacy F s) = m_Batches s"
  "m_Instances (generate_legacy F s) = m_Instances s"
  "m_MaxSprites (generate_legacy F s) = m_MaxSprites s"
  "m_DescriptorSets (generate_legacy F s) = m_DescriptorSets s"
  "vkDevice (generate_legacy F s) = vkDevice s"
  "m_CurrentCamera (generate_legacy F s) = m_CurrentCamera s"
  "m_Vertices (generate_legacy F s)
     = fst (legacy_vertices F (m_SpriteDataList s) (m_Vertices s, m_Indices s))"
  "m_Indices (generate_legacy F s)
     = snd (legacy_vertices F (m_SpriteDataList s) (m_Vertices s, m_Indices s))"
  by (simp_all add: generate_legacy_def Let_def)

lemma upload_legacy_other [simp]:
  "m_SpriteDataList (snd (upload_legacy s)) = m_SpriteDataList s"
  "m_Batches (snd (upload_legacy s)) = m_Batches s"
  "m_Instances (snd (upload_legacy s)) = m_Instances s"
  "m_Vertices (snd (upload_legacy s)) = m_Vertices s"
  "m_Indices (snd (upload_legacy s)) = m_Indices s"
  "m_MaxSprites (snd (upload_legacy s)) = m_MaxSprites s"
  "m_DescriptorSets (snd (upload_legacy s)) = m_DescriptorSets s"
  "vkDevice (snd (upload_legacy s)) = vkDevice s"
  "m_CurrentCamera (snd (upload_legacy s)) = m_CurrentCamera s"
  by (simp_all add: upload_legacy_def split: option.splits)

lemma upload_legacy_fst:
  assumes "length (m_Vertices s) \<le> unat (m_MaxSprites s) * 4"
    and "length (m_Indices s) \<le> unat (m_MaxSprites s) * 6"
  shows "fst (upload_legacy s) = Inr ()"
  using assms by (simp add: upload_legacy_def mapped_memcpy_def)


lemma upload_legacy_error:
  "fst (upload_legacy s) \<noteq> Inl (runtime_error message)"
  by (simp add: upload_legacy_def split: option.splits)

lemma update_statistics_other [simp]:
  "m_SpriteDataList (update_statistics t s) = m_SpriteDataList s"
  "m_Batches (update_statistics t s) = m_Batches s"
  "m_Instances (update_statistics t s) = m_Instances s"
  "m_Vertices (update_statistics t s) = m_Vertices s"
  "m_Indices (update_statistics t s) = m_Indices s"
  "m_VertexBuffer (update_statistics t s) = m_VertexBuffer s"
  "m_IndexBuffer (update_statistics t s) = m_IndexBuffer s"
  "m_DescriptorSets (update_statistics t s) = m_DescriptorSets s"
  "vkDevice (update_statistics t s) = vkDevice s"
  "m_CurrentCamera (update_statistics t s) = m_CurrentCamera s"
  by (simp_all add: update_statistics_def)

lemma End_throws_only_when_idle:
  "fst (End F t s) = Inl (runtime_error message) \<Longrightarrow> \<not> m_IsBatching s"
proof (rule ccontr)
  assume e: "fst (End F t s) = Inl (runtime_error message)" and "\<not> \<not> m_IsBatching s"
  then have b: "m_IsBatching s" by simp
  obtain r3 s3 where u: "UploadInstanceData (BuildBatches (SortBatches s)) = (r3, s3)"
    by (metis prod.collapse)
  obtain r6 s6 where l: "upload_legacy (generate_legacy F s3) = (r6, s6)"
    by (metis prod.collapse)
  have n3: "r3 \<noteq> Inl (runtime_error message)"
    using UploadInstanceData_error[of "BuildBatches (SortBatches s)" message] u by simp
  have n6: "r6 \<noteq> Inl (runtime_error message)"
    using upload_legacy_error[of "generate_legacy F s3" message] l by simp
  show False
    using e b u l n3 n6
    by (cases r3; cases r6) (simp_all add: End_def Let_def)
qed

text \<open>The object that \<^verbatim>\<open>End\<close> leaves when no copy overruns its buffer.\<close>

lemma End_ok:
  assumes "End_ready s"
  shows "End F t s =
           (Inr (),
            (update_statistics t
               (snd (upload_legacy
                  (generate_legacy F (snd (UploadInstanceData (BuildBatches (SortBatches s))))))))
              \<lparr>m_IsBatching := False,
                m_CurrentFrameIndex :=
                  (m_CurrentFrameIndex
                     (update_statistics t
                        (snd (upload_legacy
                           (generate_legacy F
                              (snd (UploadInstanceData (BuildBatches (SortBatches s)))))))) + 1)
                  mod FRAME_BUFFER_COUNT\<rparr>)"
    and "length (m_Vertices (generate_legacy F (snd (UploadInstanceData (BuildBatches (SortBatches s))))))
           \<le> unat (m_MaxSprites s) * 4"
    and "length (m_Indices (generate_legacy F (snd (UploadInstanceData (BuildBatches (SortBatches s))))))
           \<le> unat (m_MaxSprites s) * 6"
proof -
  let ?q = "BuildBatches (SortBatches s)"
  let ?s3 = "snd (UploadInstanceData ?q)"
  let ?g = "generate_legacy F ?s3"
  have r: "m_IsBatching s" "m_Instances s = []" "m_Vertices s = []" "m_Indices s = []"
    "length (m_SpriteDataList s) \<le> unat (m_MaxSprites s)"
    using assms by (simp_all add: End_ready_def)
  have len: "length (m_SpriteDataList ?q) = length (m_SpriteDataList s)"
    by (simp add: SortBatches_list)
  have "length (m_Instances ?q) \<le> unat (m_MaxSprites ?q)"
    using r(2,5) len by (simp add: BuildBatches_Instances)
  then have "fst (UploadInstanceData ?q) = Inr ()"
    by (rule UploadInstanceData_fst)
  then obtain s3 where u: "UploadInstanceData ?q = (Inr (), s3)"
    by (metis prod.collapse)
  have gv: "length (m_Vertices ?g) = 4 * length (m_SpriteDataList s)"
    and gi: "length (m_Indices ?g) = 6 * length (m_SpriteDataList s)"
    using legacy_vertices_lengths[of F "m_SpriteDataList ?q" "([], [])"] r(3,4) len
    by simp_all
  show v4: "length (m_Vertices ?g) \<le> unat (m_MaxSprites s) * 4"
    and i6: "length (m_Indices ?g) \<le> unat (m_MaxSprites s) * 6"
    unfolding gv gi using r(5) by simp_all
  have "fst (upload_legacy ?g) = Inr ()"
    by (rule upload_legacy_fst) (use v4 i6 in simp_all)
  then obtain s6 where "upload_legacy ?g = (Inr (), s6)"
    by (metis prod.collapse)
  then have l: "upload_legacy (generate_legacy F s3) = (Inr (), s6)"
    by (simp add: u)
  show "End F t s =
           (Inr (),
            (update_statistics t (snd (upload_legacy ?g)))
              \<lparr>m_IsBatching := False,
                m_CurrentFrameIndex :=
                  (m_CurrentFrameIndex (update_statistics t (snd (upload_legacy ?g))) + 1)
                  mod FRAME_BUFFER_COUNT\<rparr>)"
    using r(1) by (simp add: End_def Let_def u l)
qed

lemma End_fst: "End_ready s \<Longrightarrow> fst (End F t s) = Inr ()"
  by (simp add: End_ok(1))

lemma End_Batches:
  "End_ready s \<Longrightarrow> m_Batches (snd (End F t s)) = m_Batches (BuildBatches (SortBatches s))"
  by (simp add: End_ok(1))

lemma End_Instances:
  "End_ready s \<Longrightarrow> m_Instances (snd (End F t s)) = m_Instances (BuildBatches (SortBatches s))"
  by (simp add: End_ok(1))

lemma End_SpriteDataList:
  "End_ready s \<Longrightarrow> m_SpriteDataList (snd (End F t s)) = m_SpriteDataList (SortBatches s)"
  by (simp add: End_ok(1))

lemma End_Statistics:
  "End_ready s \<Longrightarrow>
   m_Statistics (snd (End F t s)) =
     \<lparr>spriteCount = word_of_nat (length (m_SpriteDataList s)),
      drawCallCount = word_of_nat (length (m_Batches (BuildBatches (SortBatches s)))),
      instancedBatches = 0,
      textureBindCount = word_of_nat (length (m_Batches (BuildBatches (SortBatches s)))),
      cpuTimeMs = t\<rparr>"
  by (simp add: End_ok(1) update_statistics_def SortBatches_list)




lemma End_keeps:
  "End_ready s \<Longrightarrow> m_DescriptorSets (snd (End F t s)) = m_DescriptorSets s"
  "End_ready s \<Longrightarrow> vkDevice (snd (End F t s)) = vkDevice s"
  "End_ready s \<Longrightarrow> m_CurrentCamera (snd (End F t s)) = m_CurrentCamera s"
  by (simp_all add: End_ok(1))

lemma Begin_idle:
  "\<not> m_IsBatching s \<Longrightarrow> fst (Begin camera s) = Inr ()"
  "\<not> m_IsBatching s \<Longrightarrow> m_IsBatching (snd (Begin camera s))"
  "\<not> m_IsBatching s \<Longrightarrow> m_SpriteDataList (snd (Begin camera s)) = []"
  "\<not> m_IsBatching s \<Longrightarrow> m_Instances (snd (Begin camera s)) = []"
  "\<not> m_IsBatching s \<Longrightarrow> m_Batches (snd (Begin camera s)) = []"
  "\<not> m_IsBatching s \<Longrightarrow> m_Vertices (snd (Begin camera s)) = []"
  "\<not> m_IsBatching s \<Longrightarrow> m_Indices (snd (Begin camera s)) = []"
  by (simp_all add: Begin_def)

lemma Begin_keeps [simp]:
  "m_MaxSprites (snd (Begin camera s)) = m_MaxSprites s"
  "m_WhiteTexture (snd (Begin camera s)) = m_WhiteTexture s"
  "m_EnableTextureSorting (snd (Begin camera s)) = m_EnableTextureSorting s"
  by (simp_all add: Begin_def)

lemma begun_example:
  "m_IsBatching (snd (Begin (Some 0) (SpriteBatch_new 7 10 0)))"
  "m_SpriteDataList (snd (Begin (Some 0) (SpriteBatch_new 7 10 0))) = []"
  "m_MaxSprites (snd (Begin (Some 0) (SpriteBatch_new 7 10 0))) = 10"
  by (simp_all add: Begin_def SpriteBatch_new_def)

lemma Frame_eq:
  assumes "\<not> m_IsBatching s"
  shows "Frame F camera ds t s = End F t (pending camera ds s)"
proof -
  obtain s1 where b: "Begin camera s = (Inr (), s1)"
    using Begin_idle(1)[OF assms, of camera] by (metis prod.collapse)
  have s1: "m_IsBatching s1" "m_SpriteDataList s1 = []" "m_MaxSprites s1 = m_MaxSprites s"
    "m_WhiteTexture s1 = m_WhiteTexture s"
    using Begin_idle(2,3)[OF assms, of camera] Begin_keeps(1,2)[of camera s] b by simp_all
  have "DrawAll ds s1 = (Inr (), s1\<lparr>m_SpriteDataList := accepted s ds\<rparr>)"
    using DrawAll_batching[OF s1(1), of ds] s1 by (simp add: accepted_def)
  then show ?thesis
    using b by (simp add: Frame_def pending_def)
qed

lemma pending_fields:
  assumes "\<not> m_IsBatching s"
  shows "m_IsBatching (pending camera ds s)"
    and "m_SpriteDataList (pending camera ds s) = accepted s ds"
    and "m_Instances (pending camera ds s) = []"
    and "m_Batches (pending camera ds s) = []"
    and "m_Vertices (pending camera ds s) = []"
    and "m_Indices (pending camera ds s) = []"
    and "m_EnableTextureSorting (pending camera ds s) = m_EnableTextureSorting s"
    and "m_MaxSprites (pending camera ds s) = m_MaxSprites s"
  using assms by (simp_all add: pending_def Begin_def)

lemma pending_ready:
  assumes "\<not> m_IsBatching s"
  shows "End_ready (pending camera ds s)"
  using pending_fields[OF assms, of camera ds]
  by (simp add: End_ready_def length_accepted)

lemma Frame_partition:
  assumes "\<not> m_IsBatching s" and "length ds \<le> unat (m_MaxSprites s)"
  shows "fst (Frame F camera ds t s) = Inr ()
       \<and> length (m_Instances (snd (Frame F camera ds t s))) = length ds
       \<and> batch_ranges (m_Batches (snd (Frame F camera ds t s))) = [0..<length ds]"
proof -
  let ?p = "pending camera ds s"
  let ?q = "SortBatches ?p"
  note pf = pending_fields[OF assms(1), of camera ds]
  have len: "length (m_SpriteDataList ?q) = length ds"
    using assms(2) by (simp add: SortBatches_list pf length_accepted)
  have tex: "\<forall>d \<in> set (m_SpriteDataList ?q). sd_texture d \<noteq> None"
    using accepted_textures[of s ds] by (simp add: SortBatches_list pf)
  have u32: "length (m_SpriteDataList ?q) < 2 ^ 32"
    using length_accepted_u32[of s ds] by (simp add: SortBatches_list pf)
  have e: "m_Batches ?q = []" "m_Instances ?q = []" by (simp_all add: pf)
  show ?thesis
    using BuildBatches_ranges[OF tex u32 e] len
    by (simp add: Frame_eq[OF assms(1)] End_fst End_Batches End_Instances pf
        pending_ready[OF assms(1)])
qed

lemma Frame_SpriteDataList:
  assumes "\<not> m_IsBatching s"
  shows "m_SpriteDataList (snd (Frame F camera ds t s))
         = (if m_EnableTextureSorting s then sort_key sd_texture (accepted s ds) else accepted s ds)"
  using pending_fields[OF assms, of camera ds]
  by (simp add: Frame_eq[OF assms] End_SpriteDataList SortBatches_list pending_ready[OF assms])

lemma Frame_Instances:
  assumes "\<not> m_IsBatching s"
  shows "m_Instances (snd (Frame F camera ds t s))
         = map sd_instance (m_SpriteDataList (snd (Frame F camera ds t s)))"
proof -
  let ?p = "pending camera ds s"
  let ?q = "SortBatches ?p"
  note pf = pending_fields[OF assms(1), of camera ds]
  have tex: "\<forall>d \<in> set (m_SpriteDataList ?q). sd_texture d \<noteq> None"
    using accepted_textures[of s ds] by (simp add: SortBatches_list pf)
  have u32: "length (m_SpriteDataList ?q) < 2 ^ 32"
    using length_accepted_u32[of s ds] by (simp add: SortBatches_list pf)
  have e: "m_Batches ?q = []" "m_Instances ?q = []" by (simp_all add: pf)
  show ?thesis
    using BuildBatches_ranges(2)[OF tex u32 e]
    by (simp add: Frame_eq[OF assms(1)] End_Instances End_SpriteDataList pf
        pending_ready[OF assms(1)])
qed

lemma Frame_Statistics:
  assumes "\<not> m_IsBatching s"
  shows "m_Statistics (snd (Frame F camera ds t s)) =
     \<lparr>spriteCount = word_of_nat (length (accepted s ds)),
      drawCallCount = word_of_nat (length (m_Batches (snd (Frame F camera ds t s)))),
      instancedBatches = 0,
      textureBindCount = word_of_nat (length (m_Batches (snd (Frame F camera ds t s)))),
      cpuTimeMs = t\<rparr>"
  using pending_fields[OF assms, of camera ds]
  by (simp add: Frame_eq[OF assms] End_Statistics End_Batches pending_ready[OF assms])




lemma Frame_keeps:
  assumes "\<not> m_IsBatching s"
  shows "m_DescriptorSets (snd (Frame F camera ds t s)) = m_DescriptorSets s"
    and "vkDevice (snd (Frame F camera ds t s)) = vkDevice s"
    and "m_CurrentCamera (snd (Frame F camera ds t s)) = camera"
  using assms pending_ready[OF assms, of camera ds]
  by (simp_all add: Frame_eq End_keeps) (simp_all add: pending_def Begin_def)

lemma Frame_batch_textures:
  assumes "\<not> m_IsBatching s"
  shows "\<forall>b \<in> set (m_Batches (snd (Frame F camera ds t s))). \<forall>j \<in> set (batch_range b).
           sd_texture (m_SpriteDataList (snd (Frame F camera ds t s)) ! j) = b_texture b"
proof -
  let ?p = "pending camera ds s"
  let ?q = "SortBatches ?p"
  note pf = pending_fields[OF assms(1), of camera ds]
  have tex: "\<forall>d \<in> set (m_SpriteDataList ?q). sd_texture d \<noteq> None"
    using accepted_textures[of s ds] by (simp add: SortBatches_list pf)
  have u32: "length (m_SpriteDataList ?q) < 2 ^ 32"
    using length_accepted_u32[of s ds] by (simp add: SortBatches_list pf)
  have e: "m_Batches ?q = []" "m_Instances ?q = []" by (simp_all add: pf)
  show ?thesis
    using BuildBatches_textures[OF tex u32 e]
    by (simp add: Frame_eq[OF assms(1)] End_Batches End_SpriteDataList pf
        pending_ready[OF assms(1)])
qed

lemma Frame_null_request:
  assumes "\<not> m_IsBatching s" and "length ds \<le> unat (m_MaxSprites s)"
    and "d \<in> set ds" and "dc_texture d = None"
  shows "\<exists>p < length ds.
           m_SpriteDataList (snd (Frame F camera ds t s)) ! p = recorded (m_WhiteTexture s) d
         \<and> sd_texture (m_SpriteDataList (snd (Frame F camera ds t s)) ! p)
             = Some (m_WhiteTexture s)
         \<and> m_Instances (snd (Frame F camera ds t s)) ! p
             = sd_instance (recorded (m_WhiteTexture s) d)
         \<and> (\<exists>b \<in> set (m_Batches (snd (Frame F camera ds t s))).
               b_texture b = Some (m_WhiteTexture s) \<and> p \<in> set (batch_range b))"
proof -
  let ?S = "snd (Frame F camera ds t s)"
  let ?ys = "m_SpriteDataList ?S"
  let ?r = "recorded (m_WhiteTexture s) d"
  have set_ys: "set ?ys = recorded (m_WhiteTexture s) ` set ds"
    using assms(2) by (simp add: Frame_SpriteDataList[OF assms(1)] accepted_all)
  have len: "length ?ys = length ds"
    using assms(2) by (simp add: Frame_SpriteDataList[OF assms(1)] accepted_all)
  have "?r \<in> set ?ys" using assms(3) set_ys by blast
  then obtain p where p: "p < length ?ys" "?ys ! p = ?r"
    by (auto simp: in_set_conv_nth)
  have tw: "sd_texture ?r = Some (m_WhiteTexture s)"
    using assms(4) by (simp add: recorded_def key_texture_def)
  have inst: "m_Instances ?S ! p = sd_instance ?r"
    using p by (simp add: Frame_Instances[OF assms(1)])
  have "batch_ranges (m_Batches ?S) = [0..<length ds]"
    using Frame_partition[OF assms(1,2)] by simp
  then have "p \<in> set (batch_ranges (m_Batches ?S))"
    using p(1) len by simp
  then obtain b where b: "b \<in> set (m_Batches ?S)" "p \<in> set (batch_range b)"
    by (auto simp: batch_ranges_def)
  have "sd_texture (?ys ! p) = b_texture b"
    using Frame_batch_textures[OF assms(1), of F camera ds t] b by blast
  then have bt: "b_texture b = Some (m_WhiteTexture s)"
    using p(2) tw by simp
  have pl: "p < length ds" using p(1) len by simp
  have ty: "sd_texture (?ys ! p) = Some (m_WhiteTexture s)" using p(2) tw by simp
  show ?thesis using pl p(2) ty inst b bt by blast
qed

text \<open>
  The scenario of three sprites with textures A, B, A: two batches, A with two instances
  starting at 0 and B with one instance starting at 2.
\<close>

lemma scenario_ABA:
  "m_Batches (snd (Frame fpu_exact (Some 0)
      [quad (Some 3), quad (Some 5), quad (Some 3)] (Fin 0) (SpriteBatch_new 7 10 0)))
   = [\<lparr>b_texture = Some 3, startInstance = 0, instanceCount = 2\<rparr>,
      \<lparr>b_texture = Some 5, startInstance = 2, instanceCount = 1\<rparr>]"
proof -
  let ?s = "SpriteBatch_new 7 10 0"
  let ?ds = "[quad (Some 3), quad (Some 5), quad (Some 3)]"
  have h: "\<not> m_IsBatching ?s" by (simp add: SpriteBatch_new_def)
  note pf = pending_fields[OF h, of "Some 0" ?ds]
  have hs: "m_EnableTextureSorting ?s" "m_MaxSprites ?s = 10" "m_WhiteTexture ?s = 7"
    by (simp_all add: SpriteBatch_new_def)
  have a: "map sd_texture (accepted ?s ?ds) = [Some 3, Some 5, Some 3]"
    by (simp add: accepted_def hs recorded_def key_texture_def quad_def)
  obtain x y z where xs: "accepted ?s ?ds = [x, y, z]"
    by (simp add: accepted_def hs)
  then have k: "sd_texture x = Some 3" "sd_texture y = Some 5" "sd_texture z = Some 3"
    using a by simp_all
  have l: "m_SpriteDataList (SortBatches (pending (Some 0) ?ds ?s)) = [x, z, y]"
    by (simp add: SortBatches_list pf hs xs k)
  show ?thesis
    by (simp add: Frame_eq[OF h] End_Batches pending_ready[OF h] pf BuildBatches_def l k)
qed

subsection \<open>Batch coverage\<close>

text \<open>
  Claim C1.  When a frame is started on an idle engine and the \<open>N\<close> requests submitted
  between \<^verbatim>\<open>Begin\<close> and \<^verbatim>\<open>End\<close> fit the capacity, \<^verbatim>\<open>End\<close> returns normally, the
  instance list has \<open>N\<close> entries, and the instance ranges of the batches, taken in batch
  order, enumerate \<open>0, 1, ..., N - 1\<close>: each range starts where the previous one stopped,
  no index is covered twice and none is left out.
\<close>

theorem batches_partition_instances:
  assumes "\<not> m_IsBatching s" and "length ds \<le> unat (m_MaxSprites s)"
  shows "fst (Frame F camera ds t s) = Inr ()
       \<and> length (m_Instances (snd (Frame F camera ds t s))) = length ds
       \<and> batch_ranges (m_Batches (snd (Frame F camera ds t s))) = [0..<length ds]"
  by (rule Frame_partition[OF assms])

theorem batches_partition_instances_witness:
  "\<not> m_IsBatching (SpriteBatch_new 7 10 0) \<and>
   length [quad (Some 3), quad (Some 5), quad (Some 3)] \<le> unat (m_MaxSprites (SpriteBatch_new 7 10 0)) \<and>
   batch_ranges (m_Batches (snd (Frame fpu_exact (Some 0)
      [quad (Some 3), quad (Some 5), quad (Some 3)] (Fin 0) (SpriteBatch_new 7 10 0)))) = [0, 1, 2]"
  using batches_partition_instances[of "SpriteBatch_new 7 10 0"
      "[quad (Some 3), quad (Some 5), quad (Some 3)]" fpu_exact "Some 0" "Fin 0"]
  by (simp add: SpriteBatch_new_def upt_rec)

subsection \<open>Capacity\<close>

text \<open>
  In the sorting implementation a frame keeps \<open>min (length ds) capacity\<close> requests,
  instances and counted sprites, and a \<^verbatim>\<open>Draw\<close> at capacity returns normally without
  changing the object.
\<close>

lemma capacity_clamp:
  assumes "\<not> m_IsBatching s"
  shows "fst (Frame F camera ds t s) = Inr ()"
    and "length (m_SpriteDataList (snd (Frame F camera ds t s))) = min (length ds) (unat (m_MaxSprites s))"
    and "length (m_Instances (snd (Frame F camera ds t s))) = min (length ds) (unat (m_MaxSprites s))"
    and "unat (spriteCount (m_Statistics (snd (Frame F camera ds t s))))
           = min (length ds) (unat (m_MaxSprites s))"
proof -
  note pf = pending_fields[OF assms(1), of camera ds]
  show "fst (Frame F camera ds t s) = Inr ()"
    by (simp add: Frame_eq[OF assms] End_fst pending_ready[OF assms])
  show l: "length (m_SpriteDataList (snd (Frame F camera ds t s))) = min (length ds) (unat (m_MaxSprites s))"
    by (simp add: Frame_SpriteDataList[OF assms] length_accepted)
  show "length (m_Instances (snd (Frame F camera ds t s))) = min (length ds) (unat (m_MaxSprites s))"
    by (simp add: Frame_Instances[OF assms] l)
  show "unat (spriteCount (m_Statistics (snd (Frame F camera ds t s))))
           = min (length ds) (unat (m_MaxSprites s))"
    using length_accepted_u32[of s ds]
    by (simp add: Frame_Statistics[OF assms] unat_u32_of_nat length_accepted)
qed

lemma Draw_at_capacity_is_dropped:
  "m_IsBatching s \<Longrightarrow> unat (m_MaxSprites s) \<le> length (m_SpriteDataList s) \<Longrightarrow>
   Draw texture position sz uvMin uvMax color rotation origin s = (Inr (), s)"
  by (simp add: Draw_def)

text \<open>
  Claim C2.  In the earlier implementation the capacity test of \<^verbatim>\<open>Draw\<close> only calls the
  empty \<^verbatim>\<open>Flush\<close> and goes on: with a capacity of one sprite, the second \<^verbatim>\<open>Draw\<close> of a
  frame returns normally, is recorded (eight vertices, twelve indices) and counted (sprite
  count 2), so the request beyond the capacity is not dropped, and \<^verbatim>\<open>End\<close> then copies
  more vertices than the mapped buffer holds.
\<close>

theorem legacy_draw_past_capacity:
  "(case Legacy_Begin (Some 0) (LegacySpriteBatch_new 7 1) of (r1, s1) \<Rightarrow>
    case Legacy_Draw fpu_exact (Some 3) (Fin 0, Fin 0) (Fin 1, Fin 1) (Fin 0, Fin 0) (Fin 1, Fin 1)
           (Fin 1, Fin 1, Fin 1, Fin 1) (Fin 0) (Fin 0, Fin 0) s1 of (r2, s2) \<Rightarrow>
    case Legacy_Draw fpu_exact (Some 3) (Fin 0, Fin 0) (Fin 1, Fin 1) (Fin 0, Fin 0) (Fin 1, Fin 1)
           (Fin 1, Fin 1, Fin 1, Fin 1) (Fin 0) (Fin 0, Fin 0) s2 of (r3, s3) \<Rightarrow>
      r1 = Inr () \<and> r2 = Inr () \<and> r3 = Inr ()
      \<and> l_MaxSprites s3 = 1 \<and> l_SpriteCount s2 = 1 \<and> l_SpriteCount s3 = 2
      \<and> length (l_Vertices s3) = 8 \<and> length (l_Indices s3) = 12
      \<and> s3 \<noteq> s2
      \<and> fst (Legacy_End s3) = Inl buffer_overrun)"
  by (simp add: Legacy_Begin_def LegacySpriteBatch_new_def Legacy_Draw_def Legacy_Flush_def
      Legacy_close_batch_def Legacy_End_def mapped_memcpy_def Let_def)

subsection \<open>Stability of the texture sort\<close>

text \<open>
  Claim C3.  After a frame started on an idle engine, the post-sort request list and the
  instance list are the accepted requests rearranged by a permutation \<open>tags\<close>, where
  \<open>tags ! p\<close> is the submission number of the record at post-sort position \<open>p\<close>.
  Whenever two records at positions \<open>p\<close> and \<open>q\<close> have the same texture and the one at
  \<open>p\<close> was submitted first, then \<open>p < q\<close>: request A submitted before request B with
  the same texture has its instance record before that of B.
\<close>

theorem same_texture_order_preserved:
  assumes "\<not> m_IsBatching s"
  shows "\<exists>tags. mset tags = mset [0..<length (accepted s ds)]
           \<and> m_SpriteDataList (snd (Frame F camera ds t s)) = map ((!) (accepted s ds)) tags
           \<and> m_Instances (snd (Frame F camera ds t s))
               = map (\<lambda>i. sd_instance (accepted s ds ! i)) tags
           \<and> (\<forall>p q. p < length tags \<and> q < length tags \<and> tags ! p < tags ! q
                     \<and> sd_texture (accepted s ds ! (tags ! p)) = sd_texture (accepted s ds ! (tags ! q))
                 \<longrightarrow> p < q)"
proof -
  let ?xs = "accepted s ds"
  let ?ys = "m_SpriteDataList (snd (Frame F camera ds t s))"
  have "\<exists>tags. mset tags = mset [0..<length ?xs]
           \<and> ?ys = map ((!) ?xs) tags
           \<and> (\<forall>p q. p < length tags \<and> q < length tags \<and> tags ! p < tags ! q
                     \<and> sd_texture (?xs ! (tags ! p)) = sd_texture (?xs ! (tags ! q)) \<longrightarrow> p < q)"
  proof (cases "m_EnableTextureSorting s")
    case True
    then have "?ys = sort_key sd_texture ?xs" by (simp add: Frame_SpriteDataList[OF assms])
    then show ?thesis using sort_key_tags[of ?xs sd_texture] by simp
  next
    case False
    then have "?ys = ?xs" by (simp add: Frame_SpriteDataList[OF assms])
    then show ?thesis using identity_tags[of ?xs sd_texture] by metis
  qed
  then obtain tags where tg: "mset tags = mset [0..<length ?xs]"
      "?ys = map ((!) ?xs) tags"
      "\<forall>p q. p < length tags \<and> q < length tags \<and> tags ! p < tags ! q
             \<and> sd_texture (?xs ! (tags ! p)) = sd_texture (?xs ! (tags ! q)) \<longrightarrow> p < q"
    by blast
  have "m_Instances (snd (Frame F camera ds t s)) = map (\<lambda>i. sd_instance (?xs ! i)) tags"
    by (simp add: Frame_Instances[OF assms] tg(2))
  with tg show ?thesis by blast
qed

theorem same_texture_order_preserved_witness:
  "\<not> m_IsBatching (SpriteBatch_new 7 10 0) \<and>
   (\<exists>tags. mset tags = mset [0..<length (accepted (SpriteBatch_new 7 10 0)
                                        [quad (Some 3), quad (Some 5), quad (Some 3)])]
      \<and> m_Instances (snd (Frame fpu_exact (Some 0)
            [quad (Some 3), quad (Some 5), quad (Some 3)] (Fin 0) (SpriteBatch_new 7 10 0)))
         = map (\<lambda>i. sd_instance (accepted (SpriteBatch_new 7 10 0)
                                   [quad (Some 3), quad (Some 5), quad (Some 3)] ! i)) tags)"
proof -
  have h: "\<not> m_IsBatching (SpriteBatch_new 7 10 0)"
    by (simp add: SpriteBatch_new_def)
  from same_texture_order_preserved[OF h, of "[quad (Some 3), quad (Some 5), quad (Some 3)]"
      fpu_exact "Some 0" "Fin 0"]
  show ?thesis using h by blast
qed

subsection \<open>Draw calls and texture runs\<close>



subsection \<open>Protocol violations\<close>

text \<open>
  Claim C5.  \<^verbatim>\<open>Begin\<close> on an engine that is batching, and \<^verbatim>\<open>Draw\<close> or \<^verbatim>\<open>End\<close> on an
  engine that is idle, throw \<^verbatim>\<open>std::runtime_error\<close> and leave the object as it was.
  \<^verbatim>\<open>Begin\<close> on an idle engine and \<^verbatim>\<open>Draw\<close> on a batching engine return normally;
  \<^verbatim>\<open>End\<close> on a batching engine throws no \<^verbatim>\<open>std::runtime_error\<close> whatever the
  object holds, and returns normally in a frame that \<^verbatim>\<open>Begin\<close> opened.
\<close>

theorem protocol_violations_raise:
  "(m_IsBatching s \<longrightarrow>
      Begin camera s
        = (Inl (runtime_error ''SpriteBatch::Begin called without ending previous batch''), s)
      \<and> fst (Draw texture position sz uvMin uvMax color rotation origin s) = Inr ()
      \<and> (\<forall>message. fst (End F t s) \<noteq> Inl (runtime_error message))
      \<and> (End_ready s \<longrightarrow> fst (End F t s) = Inr ()))
   \<and> (\<not> m_IsBatching s \<longrightarrow>
      Draw texture position sz uvMin uvMax color rotation origin s
        = (Inl (runtime_error ''SpriteBatch::Draw called without Begin''), s)
      \<and> End F t s = (Inl (runtime_error ''SpriteBatch::End called without Begin''), s)
      \<and> fst (Begin camera s) = Inr ())"
proof (intro conjI impI allI)
  assume b: "m_IsBatching s"
  show "Begin camera s
        = (Inl (runtime_error ''SpriteBatch::Begin called without ending previous batch''), s)"
    using b by (simp add: Begin_def)
  show "fst (Draw texture position sz uvMin uvMax color rotation origin s) = Inr ()"
    using b by (simp add: Draw_def Let_def)
  show "fst (End F t s) \<noteq> Inl (runtime_error message)" for message
    using b End_throws_only_when_idle[of F t s] by blast
  show "fst (End F t s) = Inr ()" if "End_ready s"
    using that by (rule End_fst)
next
  assume i: "\<not> m_IsBatching s"
  show "Draw texture position sz uvMin uvMax color rotation origin s
        = (Inl (runtime_error ''SpriteBatch::Draw called without Begin''), s)"
    using i by (simp add: Draw_def)
  show "End F t s = (Inl (runtime_error ''SpriteBatch::End called without Begin''), s)"
    using i by (simp add: End_def)
  show "fst (Begin camera s) = Inr ()"
    using i by (simp add: Begin_def)
qed

theorem protocol_violations_raise_witness:
  "Draw None (Fin 0, Fin 0) (Fin 1, Fin 1) (Fin 0, Fin 0) (Fin 1, Fin 1)
        (Fin 1, Fin 1, Fin 1, Fin 1) (Fin 0) (Fin 0, Fin 0) (SpriteBatch_new 7 10 0)
     = (Inl (runtime_error ''SpriteBatch::Draw called without Begin''), SpriteBatch_new 7 10 0)
   \<and> End fpu_exact (Fin 0) (SpriteBatch_new 7 10 0)
     = (Inl (runtime_error ''SpriteBatch::End called without Begin''), SpriteBatch_new 7 10 0)
   \<and> fst (Begin (Some 0) (SpriteBatch_new 7 10 0)) = Inr ()
   \<and> Begin (Some 0) (snd (Begin (Some 0) (SpriteBatch_new 7 10 0)))
     = (Inl (runtime_error ''SpriteBatch::Begin called without ending previous batch''),
        snd (Begin (Some 0) (SpriteBatch_new 7 10 0)))
   \<and> fst (End fpu_exact (Fin 0) (snd (Begin (Some 0) (SpriteBatch_new 7 10 0)))) = Inr ()"
proof -
  have i: "\<not> m_IsBatching (SpriteBatch_new 7 10 0)"
    and b: "m_IsBatching (snd (Begin (Some 0) (SpriteBatch_new 7 10 0)))"
    and r: "End_ready (snd (Begin (Some 0) (SpriteBatch_new 7 10 0)))"
    by (simp_all add: SpriteBatch_new_def Begin_def End_ready_def)
  from protocol_violations_raise[of "SpriteBatch_new 7 10 0" "Some 0" None "(Fin 0, Fin 0)"
      "(Fin 1, Fin 1)" "(Fin 0, Fin 0)" "(Fin 1, Fin 1)" "(Fin 1, Fin 1, Fin 1, Fin 1)" "Fin 0"
      "(Fin 0, Fin 0)" fpu_exact "Fin 0"] i
    protocol_violations_raise[of "snd (Begin (Some 0) (SpriteBatch_new 7 10 0))" "Some 0" None
      "(Fin 0, Fin 0)" "(Fin 1, Fin 1)" "(Fin 0, Fin 0)" "(Fin 1, Fin 1)"
      "(Fin 1, Fin 1, Fin 1, Fin 1)" "Fin 0" "(Fin 0, Fin 0)" fpu_exact "Fin 0"] b r
  show ?thesis by blast
qed

subsection \<open>Null textures\<close>

text \<open>
  Claim C6.  A \<^verbatim>\<open>Draw\<close> call with a null texture has the same outcome, in every state, as
  the call with the address of the engine's white texture.  On a batching engine with room
  it returns normally and appends one record, whose texture is the white texture and whose
  instance holds the arguments of the call.  A frame in which every null texture argument
  is replaced by the white texture ends in the same object: same sorted requests, same
  instances, same batches, same statistics.  And after a frame whose requests are all
  accepted, a request that was submitted with a null texture has its record at some
  position of the sorted list, keyed on the white texture, its instance at the same
  position of the instance list, and that position lies in the range of a batch whose
  texture is the white texture.
\<close>

theorem null_texture_is_white_texture:
  "Draw None position sz uvMin uvMax color rotation origin s
     = Draw (Some (m_WhiteTexture s)) position sz uvMin uvMax color rotation origin s
   \<and> (m_IsBatching s \<and> length (m_SpriteDataList s) < unat (m_MaxSprites s) \<longrightarrow>
        Draw None position sz uvMin uvMax color rotation origin s
          = (Inr (),
             s\<lparr>m_SpriteDataList := m_SpriteDataList s @
                 [\<lparr>sd_texture = Some (m_WhiteTexture s),
                   sd_instance =
                     \<lparr>i_position = position,
                      i_size = sz,
                      i_origin = origin,
                      i_rotation = rotation,
                      i_padding = Fin 0,
                      i_color = color,
                      i_uvRect = (fst uvMin, snd uvMin, fst uvMax, snd uvMax)\<rparr>\<rparr>]\<rparr>))
   \<and> Frame F camera (map (\<lambda>d. d\<lparr>dc_texture := key_texture (m_WhiteTexture s) d\<rparr>) ds) t s
     = Frame F camera ds t s
   \<and> (\<not> m_IsBatching s \<and> length ds \<le> unat (m_MaxSprites s) \<and> d \<in> set ds
        \<and> dc_texture d = None \<longrightarrow>
        (\<exists>p < length ds.
           m_SpriteDataList (snd (Frame F camera ds t s)) ! p = recorded (m_WhiteTexture s) d
         \<and> sd_texture (m_SpriteDataList (snd (Frame F camera ds t s)) ! p)
             = Some (m_WhiteTexture s)
         \<and> m_Instances (snd (Frame F camera ds t s)) ! p
             = sd_instance (recorded (m_WhiteTexture s) d)
         \<and> (\<exists>b \<in> set (m_Batches (snd (Frame F camera ds t s))).
               b_texture b = Some (m_WhiteTexture s) \<and> p \<in> set (batch_range b))))"
proof (intro conjI impI)
  show "Draw None position sz uvMin uvMax color rotation origin s
     = Draw (Some (m_WhiteTexture s)) position sz uvMin uvMax color rotation origin s"
    by (simp add: Draw_def)
  show "Frame F camera (map (\<lambda>d. d\<lparr>dc_texture := key_texture (m_WhiteTexture s) d\<rparr>) ds) t s
     = Frame F camera ds t s"
  proof (cases "m_IsBatching s")
    case True
    then show ?thesis by (simp add: Frame_def Begin_def)
  next
    case False
    have "accepted s (map (\<lambda>d. d\<lparr>dc_texture := key_texture (m_WhiteTexture s) d\<rparr>) ds)
          = accepted s ds"
      by (simp add: accepted_def recorded_substitute comp_def)
    then show ?thesis by (simp add: Frame_eq[OF False] pending_def)
  qed
next
  assume "m_IsBatching s \<and> length (m_SpriteDataList s) < unat (m_MaxSprites s)"
  then show "Draw None position sz uvMin uvMax color rotation origin s
          = (Inr (),
             s\<lparr>m_SpriteDataList := m_SpriteDataList s @
                 [\<lparr>sd_texture = Some (m_WhiteTexture s),
                   sd_instance =
                     \<lparr>i_position = position,
                      i_size = sz,
                      i_origin = origin,
                      i_rotation = rotation,
                      i_padding = Fin 0,
                      i_color = color,
                      i_uvRect = (fst uvMin, snd uvMin, fst uvMax, snd uvMax)\<rparr>\<rparr>]\<rparr>)"
    by (simp add: Draw_def Let_def)
next
  assume h: "\<not> m_IsBatching s \<and> length ds \<le> unat (m_MaxSprites s) \<and> d \<in> set ds
        \<and> dc_texture d = None"
  show "\<exists>p < length ds.
           m_SpriteDataList (snd (Frame F camera ds t s)) ! p = recorded (m_WhiteTexture s) d
         \<and> sd_texture (m_SpriteDataList (snd (Frame F camera ds t s)) ! p)
             = Some (m_WhiteTexture s)
         \<and> m_Instances (snd (Frame F camera ds t s)) ! p
             = sd_instance (recorded (m_WhiteTexture s) d)
         \<and> (\<exists>b \<in> set (m_Batches (snd (Frame F camera ds t s))).
               b_texture b = Some (m_WhiteTexture s) \<and> p \<in> set (batch_range b))"
    by (rule Frame_null_request) (use h in simp_all)
qed

theorem null_texture_is_white_texture_witness:
  "m_IsBatching (snd (Begin (Some 0) (SpriteBatch_new 7 10 0)))
   \<and> length (m_SpriteDataList (snd (Begin (Some 0) (SpriteBatch_new 7 10 0))))
       < unat (m_MaxSprites (snd (Begin (Some 0) (SpriteBatch_new 7 10 0))))
   \<and> Draw None (Fin 2, Fin 3) (Fin 4, Fin 5) (Fin 0, Fin 0) (Fin 1, Fin 1)
        (Fin 1, Fin 0, Fin 0, Fin 1) (Fin 0) (Fin 0, Fin 0)
        (snd (Begin (Some 0) (SpriteBatch_new 7 10 0)))
     = (Inr (),
        (snd (Begin (Some 0) (SpriteBatch_new 7 10 0)))
          \<lparr>m_SpriteDataList :=
             [\<lparr>sd_texture = Some 7,
               sd_instance =
                 \<lparr>i_position = (Fin 2, Fin 3),
                  i_size = (Fin 4, Fin 5),
                  i_origin = (Fin 0, Fin 0),
                  i_rotation = Fin 0,
                  i_padding = Fin 0,
                  i_color = (Fin 1, Fin 0, Fin 0, Fin 1),
                  i_uvRect = (Fin 0, Fin 0, Fin 1, Fin 1)\<rparr>\<rparr>]\<rparr>)
   \<and> \<not> m_IsBatching (SpriteBatch_new 7 10 0)
   \<and> length [quad (Some 3), quad None] \<le> unat (m_MaxSprites (SpriteBatch_new 7 10 0))
   \<and> quad None \<in> set [quad (Some 3), quad None]
   \<and> dc_texture (quad None) = None
   \<and> (\<exists>p < 2.
         sd_texture (m_SpriteDataList (snd (Frame fpu_exact (Some 0)
            [quad (Some 3), quad None] (Fin 0) (SpriteBatch_new 7 10 0))) ! p) = Some 7
       \<and> (\<exists>b \<in> set (m_Batches (snd (Frame fpu_exact (Some 0)
                        [quad (Some 3), quad None] (Fin 0) (SpriteBatch_new 7 10 0)))).
             b_texture b = Some 7 \<and> p \<in> set (batch_range b)))"
proof -
  let ?s = "SpriteBatch_new 7 10 0"
  let ?b = "snd (Begin (Some 0) ?s)"
  let ?ds = "[quad (Some 3), quad None]"
  have b1: "m_IsBatching ?b" by (rule begun_example(1))
  have b2: "length (m_SpriteDataList ?b) < unat (m_MaxSprites ?b)"
    unfolding begun_example(2,3) by simp
  have bl: "m_SpriteDataList ?b = []" by (rule begun_example(2))
  have bw: "m_WhiteTexture ?b = 7" by (simp add: SpriteBatch_new_def)
  have w: "m_WhiteTexture ?s = 7" by (simp add: SpriteBatch_new_def)
  have i1: "\<not> m_IsBatching ?s" by (simp add: SpriteBatch_new_def)
  have i2: "length ?ds \<le> unat (m_MaxSprites ?s)" by (simp add: SpriteBatch_new_def)
  have i3: "quad None \<in> set ?ds" by simp
  have i4: "dc_texture (quad None) = None" by (simp add: quad_def)
  have n: "length ?ds = 2" by simp
  note inst1 = null_texture_is_white_texture[where s = ?b and position = "(Fin 2, Fin 3)"
      and sz = "(Fin 4, Fin 5)" and uvMin = "(Fin 0, Fin 0)" and uvMax = "(Fin 1, Fin 1)"
      and color = "(Fin 1, Fin 0, Fin 0, Fin 1)" and rotation = "Fin 0"
      and origin = "(Fin 0, Fin 0)" and ds = ?ds and d = "quad None"
      and F = fpu_exact and camera = "Some 0" and t = "Fin 0"]
  have d0: "Draw None (Fin 2, Fin 3) (Fin 4, Fin 5) (Fin 0, Fin 0) (Fin 1, Fin 1)
        (Fin 1, Fin 0, Fin 0, Fin 1) (Fin 0) (Fin 0, Fin 0) ?b
     = (Inr (),
        ?b\<lparr>m_SpriteDataList := m_SpriteDataList ?b @
             [\<lparr>sd_texture = Some (m_WhiteTexture ?b),
               sd_instance =
                 \<lparr>i_position = (Fin 2, Fin 3),
                  i_size = (Fin 4, Fin 5),
                  i_origin = (Fin 0, Fin 0),
                  i_rotation = Fin 0,
                  i_padding = Fin 0,
                  i_color = (Fin 1, Fin 0, Fin 0, Fin 1),
                  i_uvRect = (fst (Fin 0, Fin 0), snd (Fin 0, Fin 0),
                              fst (Fin 1, Fin 1), snd (Fin 1, Fin 1))\<rparr>\<rparr>]\<rparr>)"
    using inst1[THEN conjunct2, THEN conjunct1] b1 b2 by blast
  have d: "Draw None (Fin 2, Fin 3) (Fin 4, Fin 5) (Fin 0, Fin 0) (Fin 1, Fin 1)
        (Fin 1, Fin 0, Fin 0, Fin 1) (Fin 0) (Fin 0, Fin 0) ?b
     = (Inr (),
        ?b\<lparr>m_SpriteDataList :=
             [\<lparr>sd_texture = Some 7,
               sd_instance =
                 \<lparr>i_position = (Fin 2, Fin 3),
                  i_size = (Fin 4, Fin 5),
                  i_origin = (Fin 0, Fin 0),
                  i_rotation = Fin 0,
                  i_padding = Fin 0,
                  i_color = (Fin 1, Fin 0, Fin 0, Fin 1),
                  i_uvRect = (Fin 0, Fin 0, Fin 1, Fin 1)\<rparr>\<rparr>]\<rparr>)"
    using d0 unfolding bl bw by simp
  note inst2 = null_texture_is_white_texture[where s = ?s and ds = ?ds and d = "quad None"
      and F = fpu_exact and camera = "Some 0" and t = "Fin 0" and position = "(Fin 2, Fin 3)"
      and sz = "(Fin 4, Fin 5)" and uvMin = "(Fin 0, Fin 0)" and uvMax = "(Fin 1, Fin 1)"
      and color = "(Fin 1, Fin 0, Fin 0, Fin 1)" and rotation = "Fin 0"
      and origin = "(Fin 0, Fin 0)"]
  have f: "\<exists>p < 2.
         sd_texture (m_SpriteDataList (snd (Frame fpu_exact (Some 0) ?ds (Fin 0) ?s)) ! p) = Some 7
       \<and> (\<exists>b \<in> set (m_Batches (snd (Frame fpu_exact (Some 0) ?ds (Fin 0) ?s))).
             b_texture b = Some 7 \<and> p \<in> set (batch_range b))"
    using inst2[THEN conjunct2, THEN conjunct2, THEN conjunct2] i1 i2 i3 i4
    unfolding w n by blast
  show ?thesis using b1 b2 d i1 i2 i3 i4 f by blast
qed

subsection \<open>Rendering twice\<close>

lemma GetOrCreateDescriptorSet_cached:
  "m_DescriptorSets s texture = Some d \<Longrightarrow> GetOrCreateDescriptorSet V texture s = (Inr d, s)"
  by (simp add: GetOrCreateDescriptorSet_def)

lemma GetOrCreateDescriptorSet_result:
  assumes "GetOrCreateDescriptorSet V texture s = (r, s')"
  shows "m_DescriptorSets s \<subseteq>\<^sub>m m_DescriptorSets s'"
    and "m_Batches s' = m_Batches s"
    and "m_CurrentCamera s' = m_CurrentCamera s"
    and "r = Inr d \<Longrightarrow> m_DescriptorSets s' texture = Some d"
  using assms
  by (auto simp: GetOrCreateDescriptorSet_def map_le_def split: option.splits prod.splits)

lemma Render_loop_result:
  assumes "Render_loop V bs off cb s = (r, cb', s')"
  shows "m_DescriptorSets s \<subseteq>\<^sub>m m_DescriptorSets s'
       \<and> m_Batches s' = m_Batches s \<and> m_CurrentCamera s' = m_CurrentCamera s"
  using assms
proof (induction bs arbitrary: off cb s)
  case Nil
  then show ?case by simp
next
  case (Cons b bs)
  obtain r1 s1 where g: "GetOrCreateDescriptorSet V (b_texture b) s = (r1, s1)"
    by (metis prod.collapse)
  note g1 = GetOrCreateDescriptorSet_result(1-3)[OF g]
  show ?case
  proof (cases r1)
    case (Inl e)
    then show ?thesis using Cons.prems g g1 by simp
  next
    case (Inr d)
    then have "Render_loop V bs (off + instanceCount b * 6)
                (cb @ [CmdBindDescriptorSets d, CmdDrawIndexed (instanceCount b * 6) 1 off 0 0]) s1
               = (r, cb', s')"
      using Cons.prems g by (simp add: Let_def)
    from Cons.IH[OF this] g1 show ?thesis
      by (metis map_le_trans)
  qed
qed

lemma Render_loop_replay:
  assumes "Render_loop V bs off cb s = (Inr (), cb', s')"
    and "m_DescriptorSets s' \<subseteq>\<^sub>m m_DescriptorSets s''"
  shows "Render_loop V bs off cb s'' = (Inr (), cb', s'')"
  using assms
proof (induction bs arbitrary: off cb s)
  case Nil
  then show ?case by simp
next
  case (Cons b bs)
  obtain r1 s1 where g: "GetOrCreateDescriptorSet V (b_texture b) s = (r1, s1)"
    by (metis prod.collapse)
  show ?case
  proof (cases r1)
    case (Inl e)
    then show ?thesis using Cons.prems(1) g by simp
  next
    case (Inr d)
    let ?cb = "cb @ [CmdBindDescriptorSets d, CmdDrawIndexed (instanceCount b * 6) 1 off 0 0]"
    have rest: "Render_loop V bs (off + instanceCount b * 6) ?cb s1 = (Inr (), cb', s')"
      using Cons.prems(1) g Inr by (simp add: Let_def)
    have "m_DescriptorSets s1 (b_texture b) = Some d"
      using GetOrCreateDescriptorSet_result(4)[OF g] Inr by simp
    moreover have "m_DescriptorSets s1 \<subseteq>\<^sub>m m_DescriptorSets s'"
      using Render_loop_result[OF rest] by simp
    ultimately have "m_DescriptorSets s'' (b_texture b) = Some d"
      using Cons.prems(2) by (metis domI map_le_def)
    then have "GetOrCreateDescriptorSet V (b_texture b) s'' = (Inr d, s'')"
      by (rule GetOrCreateDescriptorSet_cached)
    then show ?thesis
      using Cons.IH[OF rest Cons.prems(2)] by (simp add: Let_def)
  qed
qed

lemma Render_replay:
  assumes "Render F V commandBuffer s = (Inr (), cb, s')"
  shows "Render F V commandBuffer s' = (Inr (), cb, s')"
proof (cases "m_Batches s = []")
  case True
  then show ?thesis using assms by (auto simp: Render_def)
next
  case False
  then obtain camera where cam: "m_CurrentCamera s = Some camera"
    using assms by (cases "m_CurrentCamera s") (auto simp: Render_def Let_def)
  let ?cb = "(commandBuffer @
                  [CmdBindPipeline,
                   CmdSetViewport (Fin 0) (Fin 0) (f_of_u32 F (fst (swapChainExtent V)))
                      (f_of_u32 F (snd (swapChainExtent V))) (Fin 0) (Fin 1),
                   CmdSetScissor 0 0 (fst (swapChainExtent V)) (snd (swapChainExtent V))])
             @ [CmdPushConstants (viewProjectionMatrix V camera),
                CmdBindVertexBuffers, CmdBindIndexBuffer]"
  have run: "Render_loop V (m_Batches s) 0 ?cb s = (Inr (), cb, s')"
    using assms False cam by (simp add: Render_def Let_def)
  have keep: "m_Batches s' = m_Batches s" "m_CurrentCamera s' = m_CurrentCamera s"
    using Render_loop_result[OF run] by simp_all
  have "Render_loop V (m_Batches s) 0 ?cb s' = (Inr (), cb, s')"
    by (rule Render_loop_replay[OF run]) simp
  then show ?thesis
    using False cam keep by (simp add: Render_def Let_def)
qed

lemma GetOrCreateDescriptorSet_frame:
  assumes "GetOrCreateDescriptorSet V texture s = (r, s')"
  shows "s' = s\<lparr>m_DescriptorSets := m_DescriptorSets s', vkDevice := vkDevice s'\<rparr>"
  using assms
  by (auto simp: GetOrCreateDescriptorSet_def split: option.splits prod.splits)

lemma Render_loop_frame:
  assumes "Render_loop V bs off cb s = (r, cb', s')"
  shows "s' = s\<lparr>m_DescriptorSets := m_DescriptorSets s', vkDevice := vkDevice s'\<rparr>"
  using assms
proof (induction bs arbitrary: off cb s)
  case Nil
  then show ?case by simp
next
  case (Cons b bs)
  obtain r1 s1 where g: "GetOrCreateDescriptorSet V (b_texture b) s = (r1, s1)"
    by (metis prod.collapse)
  note f1 = GetOrCreateDescriptorSet_frame[OF g]
  show ?case
  proof (cases r1)
    case (Inl e)
    then show ?thesis using Cons.prems g f1 by simp
  next
    case (Inr d)
    then have "Render_loop V bs (off + instanceCount b * 6)
                (cb @ [CmdBindDescriptorSets d, CmdDrawIndexed (instanceCount b * 6) 1 off 0 0]) s1
               = (r, cb', s')"
      using Cons.prems g by (simp add: Let_def)
    from Cons.IH[OF this] have "s' = s1\<lparr>m_DescriptorSets := m_DescriptorSets s', vkDevice := vkDevice s'\<rparr>" .
    then show ?thesis by (subst (asm) f1) simp
  qed
qed

lemma Render_frame:
  assumes "Render F V commandBuffer s = (r, cb, s')"
  shows "s' = s\<lparr>m_DescriptorSets := m_DescriptorSets s', vkDevice := vkDevice s'\<rparr>"
proof (cases "m_Batches s = []")
  case True
  then show ?thesis using assms by (auto simp: Render_def)
next
  case False
  show ?thesis
  proof (cases "m_CurrentCamera s")
    case None
    then show ?thesis using assms False by (auto simp: Render_def Let_def)
  next
    case (Some camera)
    then show ?thesis
      using assms False Render_loop_frame[of V "m_Batches s" 0 _ s r cb s']
      by (simp add: Render_def Let_def)
  qed
qed

text \<open>
  Claim C7.  When \<^verbatim>\<open>Render\<close> has returned normally, a second \<^verbatim>\<open>Render\<close> that starts
  from the same command-buffer contents records exactly the same commands, returns
  normally and changes nothing; and the first call changed nothing of the object but the
  descriptor cache and the device state behind it.
\<close>

theorem render_twice_same_draws:
  assumes "Render F V commandBuffer s = (Inr (), cb, s')"
  shows "Render F V commandBuffer s' = (Inr (), cb, s')
       \<and> s' = s\<lparr>m_DescriptorSets := m_DescriptorSets s', vkDevice := vkDevice s'\<rparr>"
  using Render_replay[OF assms] Render_frame[OF assms] by blast

theorem render_twice_same_draws_witness:
  "Render fpu_exact vulkan_example []
      (snd (Frame fpu_exact (Some 0) [quad (Some 3), quad (Some 5), quad (Some 3)] (Fin 0)
              (SpriteBatch_new 7 10 0)))
   = (Inr (),
      [CmdBindPipeline,
       CmdSetViewport (Fin 0) (Fin 0) (Fin 800) (Fin 600) (Fin 0) (Fin 1),
       CmdSetScissor 0 0 800 600,
       CmdPushConstants (replicate 16 (Fin 0)),
       CmdBindVertexBuffers,
       CmdBindIndexBuffer,
       CmdBindDescriptorSets 0,
       CmdDrawIndexed 12 1 0 0 0,
       CmdBindDescriptorSets 1,
       CmdDrawIndexed 6 1 12 0 0],
      (snd (Frame fpu_exact (Some 0) [quad (Some 3), quad (Some 5), quad (Some 3)] (Fin 0)
              (SpriteBatch_new 7 10 0)))
        \<lparr>m_DescriptorSets := [Some 3 \<mapsto> 0, Some 5 \<mapsto> 1], vkDevice := 2\<rparr>)
   \<and> Render fpu_exact vulkan_example []
      ((snd (Frame fpu_exact (Some 0) [quad (Some 3), quad (Some 5), quad (Some 3)] (Fin 0)
              (SpriteBatch_new 7 10 0)))
        \<lparr>m_DescriptorSets := [Some 3 \<mapsto> 0, Some 5 \<mapsto> 1], vkDevice := 2\<rparr>)
   = (Inr (),
      [CmdBindPipeline,
       CmdSetViewport (Fin 0) (Fin 0) (Fin 800) (Fin 600) (Fin 0) (Fin 1),
       CmdSetScissor 0 0 800 600,
       CmdPushConstants (replicate 16 (Fin 0)),
       CmdBindVertexBuffers,
       CmdBindIndexBuffer,
       CmdBindDescriptorSets 0,
       CmdDrawIndexed 12 1 0 0 0,
       CmdBindDescriptorSets 1,
       CmdDrawIndexed 6 1 12 0 0],
      (snd (Frame fpu_exact (Some 0) [quad (Some 3), quad (Some 5), quad (Some 3)] (Fin 0)
              (SpriteBatch_new 7 10 0)))
        \<lparr>m_DescriptorSets := [Some 3 \<mapsto> 0, Some 5 \<mapsto> 1], vkDevice := 2\<rparr>)"
proof -
  let ?S = "snd (Frame fpu_exact (Some 0) [quad (Some 3), quad (Some 5), quad (Some 3)] (Fin 0)
              (SpriteBatch_new 7 10 0))"
  have h: "\<not> m_IsBatching (SpriteBatch_new 7 10 0)" by (simp add: SpriteBatch_new_def)
  have k: "m_DescriptorSets ?S = Map.empty" "vkDevice ?S = 0" "m_CurrentCamera ?S = Some 0"
    using Frame_keeps[OF h, of fpu_exact "Some 0" _ "Fin 0"] by (simp_all add: SpriteBatch_new_def)
  have fu: "f_of_u32 fpu_exact 800 = Fin 800" "f_of_u32 fpu_exact 600 = Fin 600"
    by (simp_all add: fpu_exact_def)
  have first: "Render fpu_exact vulkan_example [] ?S
   = (Inr (),
      [CmdBindPipeline,
       CmdSetViewport (Fin 0) (Fin 0) (Fin 800) (Fin 600) (Fin 0) (Fin 1),
       CmdSetScissor 0 0 800 600,
       CmdPushConstants (replicate 16 (Fin 0)),
       CmdBindVertexBuffers,
       CmdBindIndexBuffer,
       CmdBindDescriptorSets 0,
       CmdDrawIndexed 12 1 0 0 0,
       CmdBindDescriptorSets 1,
       CmdDrawIndexed 6 1 12 0 0],
      ?S\<lparr>m_DescriptorSets := [Some 3 \<mapsto> 0, Some 5 \<mapsto> 1], vkDevice := 2\<rparr>)"
    by (simp add: Render_def scenario_ABA k GetOrCreateDescriptorSet_def vulkan_example_def
        fu Let_def)
  from render_twice_same_draws[OF first] first show ?thesis by blast
qed

subsection \<open>Index ranges of the fallback draws\<close>





section \<open>Properties of the camera\<close>

text \<open>
  Claim C8.  \<^verbatim>\<open>SetZoom\<close> stores the floor \<^verbatim>\<open>0.1f\<close> when its argument compares less than
  the floor and the argument itself otherwise, and \<^verbatim>\<open>Zoom\<close> does the same with the sum
  of the old zoom and the delta.  Neither computes a matrix: both leave the cached view
  matrix alone and mark it dirty, so that the next read of the view matrix builds it from
  the stored, clamped zoom.
\<close>

theorem zoom_is_clamped:
  "m_Zoom (SetZoom z c) = (if float_less z zoom_floor then zoom_floor else z)
   \<and> m_Zoom (Zoom F delta c)
       = (if float_less (fadd F (m_Zoom c) delta) zoom_floor then zoom_floor
          else fadd F (m_Zoom c) delta)
   \<and> m_ViewDirty (SetZoom z c) \<and> m_ViewDirty (Zoom F delta c)
   \<and> m_ViewMatrix (SetZoom z c) = m_ViewMatrix c
   \<and> m_ViewMatrix (Zoom F delta c) = m_ViewMatrix c
   \<and> fst (GetViewMatrix G F (SetZoom z c))
       = view_matrix G F (m_Position c) (m_Rotation c)
           (if float_less z zoom_floor then zoom_floor else z)
   \<and> fst (GetViewMatrix G F (Zoom F delta c))
       = view_matrix G F (m_Position c) (m_Rotation c)
           (if float_less (fadd F (m_Zoom c) delta) zoom_floor then zoom_floor
            else fadd F (m_Zoom c) delta)"
  by (simp add: SetZoom_def Zoom_def GetViewMatrix_def UpdateViewMatrix_def Let_def)

lemma float_less_floor:
  "float_less (Fin r) zoom_floor \<longleftrightarrow> r < 13421773 / 134217728"
  "float_less NegInf zoom_floor" "\<not> float_less PosInf zoom_floor" "\<not> float_less NaN zoom_floor"
  by (simp_all add: zoom_floor_def)

theorem zoom_is_clamped_witness:
  "m_Zoom (SetZoom (Fin 0) camera_example) = zoom_floor
   \<and> m_Zoom (SetZoom (Fin (- 3)) camera_example) = zoom_floor
   \<and> m_Zoom (SetZoom (Fin 2) camera_example) = Fin 2
   \<and> m_Zoom (Zoom fpu_exact (Fin (- 1)) (SetZoom (Fin 1) camera_example)) = zoom_floor
   \<and> fst (GetViewMatrix glm_example fpu_exact (SetZoom (Fin 0) camera_example))
       = [zoom_floor, zoom_floor, Fin 1, Fin 0, Fin 0, Fin 0, Fin 0]"
proof -
  have a: "float_less (Fin 0) zoom_floor" "float_less (Fin (- 3)) zoom_floor"
    "\<not> float_less (Fin 2) zoom_floor" "\<not> float_less (Fin 1) zoom_floor"
    by (simp_all add: float_less_floor)
  have b: "fadd fpu_exact (Fin 1) (Fin (- 1)) = Fin 0" "fneg fpu_exact (Fin 0) = Fin 0"
    by (simp_all add: fpu_exact_def)
  have c: "m_Position camera_example = (Fin 0, Fin 0)" "m_Rotation camera_example = Fin 0"
    by (simp_all add: camera_example_def Camera2D_new_def UpdateProjectionMatrix_def
        UpdateViewMatrix_def)
  have v: "view_matrix glm_example fpu_exact (Fin 0, Fin 0) (Fin 0) zoom_floor
           = [zoom_floor, zoom_floor, Fin 1, Fin 0, Fin 0, Fin 0, Fin 0]"
    by (simp add: view_matrix_def glm_example_def b)
  show ?thesis
    using zoom_is_clamped[where z = "Fin 0" and c = camera_example and G = glm_example and F = fpu_exact]
      zoom_is_clamped[of "Fin (- 3)" camera_example]
      zoom_is_clamped[of "Fin 2" camera_example]
      zoom_is_clamped[of "Fin 1" camera_example fpu_exact "Fin (- 1)"]
      zoom_is_clamped[of _ "SetZoom (Fin 1) camera_example" fpu_exact "Fin (- 1)"]
    by (simp add: a b c v)
qed

section \<open>Properties of the text renderer\<close>







end
